theory Spec2Isabelle
  imports Complex_Main "HOL-Library.Sublist"
begin

section \<open>The resilient generation pipeline of dentallypro\<close>

text \<open>
  A shallow embedding of \<^verbatim>\<open>src/services/geminiService.ts\<close> and of the request handler
  \<^verbatim>\<open>handleConvert\<close> of \<^verbatim>\<open>src/App.tsx\<close>.

  Conventions of the embedding.
  \<^item> A JavaScript string is a \<^typ>\<open>string\<close>, read as the UTF-8 bytes of the text; the
    patterns searched for are ASCII, so a search gives the same answer on bytes and on
    UTF-16 code units. \<open>toLowerCase\<close> maps the ASCII letters and leaves every other byte.
  \<^item> A thrown value is \<open>undefined\<close>, a string or an object; of an object only the fields
    the code reads are kept.
  \<^item> An \<open>async\<close> function is a function from the backend state to its outcome and the
    new backend state, together with the list of the events (attempts, waits) it went
    through, in order. A \<open>throw\<close> is the outcome \<open>Inl\<close>.
  \<^item> \<open>Math.random()\<close> is a parameter: the value drawn in the loop iteration \<open>i\<close>.
\<close>

subsection \<open>Strings\<close>

text \<open>\<open>s.includes(pat)\<close>.\<close>

fun str_includes :: "string \<Rightarrow> string \<Rightarrow> bool" where
  "str_includes [] pat = (pat = [])"
| "str_includes (c # cs) pat = (prefix pat (c # cs) \<or> str_includes cs pat)"

definition lower_char :: "char \<Rightarrow> char" where
  "lower_char c =
     (let n = (of_char c :: nat) in if 65 \<le> n \<and> n \<le> 90 then char_of (n + 32) else c)"

definition toLowerCase :: "string \<Rightarrow> string" where
  "toLowerCase s = map lower_char s"

text \<open>
  \<open>s.trim()\<close> removes the white space and line terminators of ECMAScript at both ends:
  TAB, LF, VT, FF, CR, SP, and in UTF-8 the encodings of U+00A0, U+1680, U+2000..U+200A,
  U+2028, U+2029, U+202F, U+205F, U+3000 and U+FEFF.
\<close>

definition ws1 :: "char \<Rightarrow> bool" where
  "ws1 a = (let n = (of_char a :: nat) in (9 \<le> n \<and> n \<le> 13) \<or> n = 32)"

definition ws2 :: "char \<Rightarrow> char \<Rightarrow> bool" where
  "ws2 a b = ((of_char a :: nat) = 0xC2 \<and> (of_char b :: nat) = 0xA0)"

definition ws3 :: "char \<Rightarrow> char \<Rightarrow> char \<Rightarrow> bool" where
  "ws3 a b c =
     (let x = (of_char a :: nat); y = (of_char b :: nat); z = (of_char c :: nat) in
        (x = 0xE1 \<and> y = 0x9A \<and> z = 0x80) \<or>
        (x = 0xE2 \<and> y = 0x80 \<and> ((0x80 \<le> z \<and> z \<le> 0x8A) \<or> z = 0xA8 \<or> z = 0xA9 \<or> z = 0xAF)) \<or>
        (x = 0xE2 \<and> y = 0x81 \<and> z = 0x9F) \<or>
        (x = 0xE3 \<and> y = 0x80 \<and> z = 0x80) \<or>
        (x = 0xEF \<and> y = 0xBB \<and> z = 0xBF))"

fun trimStart :: "string \<Rightarrow> string" where
  "trimStart (a # b # c # s) =
     (if ws1 a then trimStart (b # c # s)
      else if ws2 a b then trimStart (c # s)
      else if ws3 a b c then trimStart s
      else a # b # c # s)"
| "trimStart [a, b] =
     (if ws1 a then trimStart [b] else if ws2 a b then [] else [a, b])"
| "trimStart [a] = (if ws1 a then [] else [a])"
| "trimStart [] = []"

text \<open>The same from the end, on the reversed string (so the bytes of a sequence come last first).\<close>

fun trimEnd_rev :: "string \<Rightarrow> string" where
  "trimEnd_rev (c # b # a # s) =
     (if ws1 c then trimEnd_rev (b # a # s)
      else if ws2 b c then trimEnd_rev (a # s)
      else if ws3 a b c then trimEnd_rev s
      else c # b # a # s)"
| "trimEnd_rev [c, b] =
     (if ws1 c then trimEnd_rev [b] else if ws2 b c then [] else [c, b])"
| "trimEnd_rev [c] = (if ws1 c then [] else [c])"
| "trimEnd_rev [] = []"

definition trim :: "string \<Rightarrow> string" where
  "trim s = rev (trimEnd_rev (rev (trimStart s)))"

text \<open>
  A string of white space only: it reads, from the left, as a sequence of the white space
  characters above (the empty string is one).
\<close>

fun whitespace_only :: "string \<Rightarrow> bool" where
  "whitespace_only [] = True"
| "whitespace_only [a] = ws1 a"
| "whitespace_only [a, b] = (ws1 a \<and> whitespace_only [b] \<or> ws2 a b)"
| "whitespace_only (a # b # c # s) =
     (ws1 a \<and> whitespace_only (b # c # s) \<or> ws2 a b \<and> whitespace_only (c # s)
      \<or> ws3 a b c \<and> whitespace_only s)"

subsection \<open>Thrown values\<close>

datatype js_val = JUndefined | JNumber int | JString string

fun truthy :: "js_val \<Rightarrow> bool" where
  "truthy JUndefined = False"
| "truthy (JNumber n) = (n \<noteq> 0)"
| "truthy (JString s) = (s \<noteq> [])"

text \<open>\<open>a || b\<close> on values.\<close>

definition js_or :: "js_val \<Rightarrow> js_val \<Rightarrow> js_val" where
  "js_or a b = (if truthy a then a else b)"

text \<open>
  An error object. \<open>message\<close>, \<open>status\<close>, \<open>code\<close> are its own fields, \<open>error_message\<close>
  and \<open>error_code\<close> are \<open>error.error.message\<close> and \<open>error.error.code\<close>; \<open>json_text\<close>
  is what \<open>JSON.stringify(error)\<close> returns and \<open>to_string\<close> what \<open>error.toString()\<close> returns.
  A message is a string when it is there.
\<close>

record js_error =
  message :: "string option"
  status :: js_val
  code :: js_val
  error_message :: "string option"
  error_code :: js_val
  json_text :: string
  to_string :: string

datatype thrown = Undefined | Str string | Obj js_error

text \<open>\<open>new Error(msg)\<close>: only the message; \<open>JSON.stringify\<close> of it is \<open>{}\<close>.\<close>

definition new_Error :: "string \<Rightarrow> thrown" where
  "new_Error msg =
     Obj \<lparr>message = Some msg, status = JUndefined, code = JUndefined,
          error_message = None, error_code = JUndefined,
          json_text = ''{}'', to_string = (if msg = [] then ''Error'' else ''Error: '' @ msg)\<rparr>"

text \<open>
  The \<open>TypeError\<close> of reading a property of \<open>undefined\<close> (the wording is V8's).
\<close>

definition typeError_reading :: "string \<Rightarrow> thrown" where
  "typeError_reading prop =
     Obj \<lparr>message = Some (''Cannot read properties of undefined (reading '' @ [CHR 0x27] @ prop @ [CHR 0x27] @ '')''),
          status = JUndefined, code = JUndefined,
          error_message = None, error_code = JUndefined,
          json_text = ''{}'',
          to_string = ''TypeError: Cannot read properties of undefined (reading '' @ [CHR 0x27] @ prop @ [CHR 0x27] @ '')''\<rparr>"

text \<open>\<open>error?.message\<close>, \<open>error?.status\<close> and the like.\<close>

fun message_of :: "thrown \<Rightarrow> string option" where
  "message_of (Obj e) = message e"
| "message_of _ = None"

fun status_of :: "thrown \<Rightarrow> js_val" where
  "status_of (Obj e) = status e"
| "status_of _ = JUndefined"

fun code_of :: "thrown \<Rightarrow> js_val" where
  "code_of (Obj e) = code e"
| "code_of _ = JUndefined"

fun error_message_of :: "thrown \<Rightarrow> string option" where
  "error_message_of (Obj e) = error_message e"
| "error_message_of _ = None"

fun error_code_of :: "thrown \<Rightarrow> js_val" where
  "error_code_of (Obj e) = error_code e"
| "error_code_of _ = JUndefined"

text \<open>A string that is there and not empty: the truthy strings.\<close>

fun truthy_str :: "string option \<Rightarrow> bool" where
  "truthy_str None = False"
| "truthy_str (Some s) = (s \<noteq> [])"

subsection \<open>isRetryableError\<close>

text \<open>
  The text the classification reads:
  \<^verbatim>\<open>error?.message || error?.error?.message || (typeof error === 'string' ? error : JSON.stringify(error))\<close>,
  lowered. \<open>JSON.stringify(undefined)\<close> is \<open>undefined\<close>, and \<open>toLowerCase\<close> of it throws.
\<close>

fun retry_msg :: "thrown \<Rightarrow> thrown + string" where
  "retry_msg Undefined = Inl (typeError_reading ''toLowerCase'')"
| "retry_msg (Str s) = Inr (toLowerCase s)"
| "retry_msg (Obj e) =
     Inr (toLowerCase
       (if truthy_str (message e) then the (message e)
        else if truthy_str (error_message e) then the (error_message e)
        else json_text e))"

definition retry_status :: "thrown \<Rightarrow> js_val" where
  "retry_status error = js_or (js_or (status_of error) (code_of error)) (error_code_of error)"

definition isRetryableError :: "thrown \<Rightarrow> bool \<Rightarrow> thrown + bool" where
  "isRetryableError error retryOnQuota =
     (case retry_msg error of
        Inl t \<Rightarrow> Inl t
      | Inr msg \<Rightarrow>
          (let status = retry_status error in
           if status = JNumber 429 \<or> str_includes msg ''429'' \<or> str_includes msg ''quota''
              \<or> str_includes msg ''resource_exhausted''
           then Inr retryOnQuota
           else if str_includes msg ''error code: 6'' \<or> str_includes msg ''failed to fetch''
              \<or> str_includes msg ''networkerror'' \<or> status = JNumber 503 \<or> status = JNumber 504
           then Inr True
           else Inr False))"

text \<open>
  The three classes of the retry policy, read off \<open>isRetryableError\<close>: an error it
  retries whatever the flag is transient, one it retries only under \<open>retryOnQuota\<close> is
  rate-limited, one it never retries is fatal.
\<close>

datatype failure_kind = RateLimited | Transient | Fatal

definition classify :: "thrown \<Rightarrow> thrown + failure_kind" where
  "classify error =
     (case isRetryableError error True of
        Inl t \<Rightarrow> Inl t
      | Inr False \<Rightarrow> Inr Fatal
      | Inr True \<Rightarrow>
          (case isRetryableError error False of
             Inr False \<Rightarrow> Inr RateLimited
           | _ \<Rightarrow> Inr Transient))"

subsection \<open>withRetry\<close>

datatype retry_event = Attempt nat | Backoff real

text \<open>
  The quota test of \<open>withRetry\<close> itself, on \<open>(error?.message || "").toLowerCase()\<close> and
  \<open>error?.status\<close>.
\<close>

definition retry_isQuota :: "thrown \<Rightarrow> bool" where
  "retry_isQuota error =
     (let msg = toLowerCase (if truthy_str (message_of error) then the (message_of error) else [])
      in str_includes msg ''quota'' \<or> str_includes msg ''429''
         \<or> str_includes msg ''resource_exhausted'' \<or> status_of error = JNumber 429)"

definition waitTime :: "thrown \<Rightarrow> nat \<Rightarrow> real \<Rightarrow> real" where
  "waitTime error i rnd =
     (let baseDelay = (if retry_isQuota error then 8000 else 2000)
      in baseDelay * 2 ^ i + rnd * 1000)"

text \<open>
  The loop of \<open>withRetry\<close> from the iteration \<open>i\<close>, with \<open>lastError\<close> as it stands.
  \<open>Attempt i\<close> is the call \<open>fn(i)\<close>, \<open>Backoff t\<close> the call \<open>delay(t)\<close>.
\<close>

function withRetry_from ::
  "(nat \<Rightarrow> 'b \<Rightarrow> (thrown + 'a) \<times> 'b) \<Rightarrow> int \<Rightarrow> bool \<Rightarrow> (nat \<Rightarrow> real) \<Rightarrow> nat \<Rightarrow> thrown \<Rightarrow> 'b
     \<Rightarrow> (thrown + 'a) \<times> retry_event list \<times> 'b" where
  "withRetry_from fn retries retryOnQuota random i lastError b =
     (if int i < retries then
        (case fn i b of
           (Inr v, b') \<Rightarrow> (Inr v, [Attempt i], b')
         | (Inl error, b') \<Rightarrow>
             (case isRetryableError error retryOnQuota of
                Inl t \<Rightarrow> (Inl t, [Attempt i], b')
              | Inr False \<Rightarrow> (Inl error, [Attempt i], b')
              | Inr True \<Rightarrow>
                  if int i < retries - 1 then
                    (case withRetry_from fn retries retryOnQuota random (Suc i) error b' of
                       (r, evs, b'') \<Rightarrow> (r, Attempt i # Backoff (waitTime error i (random i)) # evs, b''))
                  else (Inl error, [Attempt i], b')))
      else (Inl lastError, [], b))"
  by pat_completeness auto
termination
  by (relation "measure (\<lambda>(fn, retries, q, random, i, lastError, b). nat (retries - int i))") auto

declare withRetry_from.simps [simp del]

definition withRetry ::
  "(nat \<Rightarrow> 'b \<Rightarrow> (thrown + 'a) \<times> 'b) \<Rightarrow> int \<Rightarrow> bool \<Rightarrow> (nat \<Rightarrow> real) \<Rightarrow> 'b
     \<Rightarrow> (thrown + 'a) \<times> retry_event list \<times> 'b" where
  "withRetry fn retries retryOnQuota random b =
     withRetry_from fn retries retryOnQuota random 0 Undefined b"

subsection \<open>withModelFallback\<close>

text \<open>
  \<open>GetApiKey\<close> is the call of \<open>getApiKey\<close>, \<open>Operation m\<close> the call
  \<open>operation(m, apiKey)\<close>, \<open>Within e\<close> an event of that operation, \<open>Delay t\<close> the call
  \<open>delay(t)\<close>.
\<close>

datatype 'e fallback_event = GetApiKey | Operation string | Within 'e | Delay real

definition key_missing_message :: string where
  "key_missing_message =
     [CHR 0xD9, CHR 0x85, CHR 0xD9, CHR 0x81, CHR 0xD8, CHR 0xAA, CHR 0xD8, CHR 0xA7, CHR 0xD8, CHR 0xAD]
     @ '' API '' @
     [CHR 0xD9, CHR 0x85, CHR 0xD9, CHR 0x81, CHR 0xD9, CHR 0x82, CHR 0xD9, CHR 0x88, CHR 0xD8, CHR 0xAF]
     @ ''! '' @
     [CHR 0xD8, CHR 0xAA, CHR 0xD8, CHR 0xA3, CHR 0xD9, CHR 0x83, CHR 0xD8, CHR 0xAF]
     @ '' '' @ [CHR 0xD9, CHR 0x85, CHR 0xD9, CHR 0x86] @ '' '' @
     [CHR 0xD8, CHR 0xA5, CHR 0xD8, CHR 0xB9, CHR 0xD8, CHR 0xAF, CHR 0xD8, CHR 0xA7, CHR 0xD8, CHR 0xAF,
      CHR 0xD8, CHR 0xA7, CHR 0xD8, CHR 0xAA]
     @ '' '' @
     [CHR 0xD8, CHR 0xA7, CHR 0xD9, CHR 0x84, CHR 0xD8, CHR 0xA8, CHR 0xD9, CHR 0x8A, CHR 0xD8, CHR 0xA6,
      CHR 0xD8, CHR 0xA9]
     @ '' (Environment Variables).''"

text \<open>\<^verbatim>\<open>!apiKey || apiKey === "undefined" || apiKey.trim() === ""\<close>\<close>

definition apiKey_missing :: "string option \<Rightarrow> bool" where
  "apiKey_missing apiKey =
     (\<not> truthy_str apiKey \<or> apiKey = Some ''undefined'' \<or> trim (the apiKey) = [])"

text \<open>
  \<^verbatim>\<open>error?.message?.includes("429") || error?.message?.toLowerCase().includes("quota")\<close>
\<close>

definition fallback_isQuota :: "thrown \<Rightarrow> bool" where
  "fallback_isQuota error =
     (case message_of error of
        None \<Rightarrow> False
      | Some m \<Rightarrow> str_includes m ''429'' \<or> str_includes (toLowerCase m) ''quota'')"

text \<open>\<open>xs.indexOf(x)\<close>: the first position of \<open>x\<close>, or \<open>-1\<close>.\<close>

fun indexOf :: "'a list \<Rightarrow> 'a \<Rightarrow> int" where
  "indexOf [] x = - 1"
| "indexOf (y # ys) x =
     (if x = y then 0 else (let r = indexOf ys x in if r = - 1 then - 1 else r + 1))"

text \<open>
  The loop over \<open>models\<close>, at the candidates \<open>rest\<close> still to try. The \<open>catch\<close> block
  reads \<open>error.message\<close>, which throws on \<open>undefined\<close>.
\<close>

fun withModelFallback_from ::
  "(string \<Rightarrow> string \<Rightarrow> 'b \<Rightarrow> (thrown + 'a) \<times> 'e list \<times> 'b) \<Rightarrow> string \<Rightarrow> string list
     \<Rightarrow> string list \<Rightarrow> thrown \<Rightarrow> 'b \<Rightarrow> (thrown + 'a) \<times> 'e fallback_event list \<times> 'b" where
  "withModelFallback_from operation apiKey models [] lastError b = (Inl lastError, [], b)"
| "withModelFallback_from operation apiKey models (model # rest) lastError b =
     (case operation model apiKey b of
        (Inr v, evs, b') \<Rightarrow> (Inr v, Operation model # map Within evs, b')
      | (Inl error, evs, b') \<Rightarrow>
          (case error of
             Undefined \<Rightarrow> (Inl (typeError_reading ''message''), Operation model # map Within evs, b')
           | _ \<Rightarrow>
              (let isQuota = fallback_isQuota error;
                   waits = (if indexOf models model < int (length models) - 1
                            then [Delay (if isQuota then 8000 else 1000)] else [])
               in case withModelFallback_from operation apiKey models rest error b' of
                    (r, evs', b'') \<Rightarrow> (r, Operation model # map Within evs @ waits @ evs', b''))))"

text \<open>\<open>env_API_KEY\<close> is \<open>process.env.API_KEY\<close>, which \<open>getApiKey\<close> returns.\<close>

definition withModelFallback ::
  "(string \<Rightarrow> string \<Rightarrow> 'b \<Rightarrow> (thrown + 'a) \<times> 'e list \<times> 'b) \<Rightarrow> string list
     \<Rightarrow> string option \<Rightarrow> 'b \<Rightarrow> (thrown + 'a) \<times> 'e fallback_event list \<times> 'b" where
  "withModelFallback operation models env_API_KEY b =
     (let apiKey = env_API_KEY in
      if apiKey_missing apiKey then (Inl (new_Error key_missing_message), [GetApiKey], b)
      else (case withModelFallback_from operation (the apiKey) models models Undefined b of
              (r, evs, b') \<Rightarrow> (r, GetApiKey # evs, b')))"

definition default_models :: "string list" where
  "default_models = [''gemini-2.5-flash'', ''gemini-3-flash-preview'']"

subsection \<open>parseAIResponse\<close>

text \<open>
  \<^verbatim>\<open>text.replace(/```json\n?|```/g, '')\<close>: at each position, from the left, the first
  alternative that matches is removed (the marker with \<open>json\<close> and a line feed, the marker
  with \<open>json\<close>, the bare marker), and the scan goes on behind it.
\<close>

definition fence :: string where
  "fence = [CHR 0x60, CHR 0x60, CHR 0x60]"

function strip_fences :: "string \<Rightarrow> string" where
  "strip_fences [] = []"
| "strip_fences (c # cs) =
     (if prefix (fence @ ''json'' @ [CHR 0x0A]) (c # cs) then strip_fences (drop 8 (c # cs))
      else if prefix (fence @ ''json'') (c # cs) then strip_fences (drop 7 (c # cs))
      else if prefix fence (c # cs) then strip_fences (drop 3 (c # cs))
      else c # strip_fences cs)"
  by pat_completeness auto
termination
  by (relation "measure length") auto

declare strip_fences.simps [simp del]

text \<open>\<open>s.lastIndexOf(x)\<close>, and \<open>s.substring(start, end)\<close> with its clamping and its swap.\<close>

definition lastIndexOf :: "'a list \<Rightarrow> 'a \<Rightarrow> int" where
  "lastIndexOf xs x =
     (let r = indexOf (rev xs) x in if r = - 1 then - 1 else int (length xs) - 1 - r)"

definition substring :: "string \<Rightarrow> int \<Rightarrow> int \<Rightarrow> string" where
  "substring s start end =
     (let len = int (length s);
          a = max 0 (min start len);
          b = max 0 (min end len);
          lo = min a b;
          hi = max a b
      in take (nat (hi - lo)) (drop (nat lo) s))"

text \<open>A parsed JSON value.\<close>

datatype json = JNull | JBool bool | JNum real | JStr string | JArr "json list"
  | JObj "(string \<times> json) list"

definition empty_response_message :: string where
  "empty_response_message =
     [CHR 0xD8, CHR 0xA7, CHR 0xD8, CHR 0xB3, CHR 0xD8, CHR 0xAA, CHR 0xD8, CHR 0xAC, CHR 0xD8, CHR 0xA7,
      CHR 0xD8, CHR 0xA8, CHR 0xD8, CHR 0xA9]
     @ '' '' @
     [CHR 0xD9, CHR 0x81, CHR 0xD8, CHR 0xA7, CHR 0xD8, CHR 0xB1, CHR 0xD8, CHR 0xBA, CHR 0xD8, CHR 0xA9]
     @ '' '' @ [CHR 0xD9, CHR 0x85, CHR 0xD9, CHR 0x86] @ '' '' @
     [CHR 0xD8, CHR 0xA7, CHR 0xD9, CHR 0x84, CHR 0xD9, CHR 0x85, CHR 0xD8, CHR 0xAD, CHR 0xD8, CHR 0xB1,
      CHR 0xD9, CHR 0x83]
     @ ''.''"

definition parse_failed_message :: string where
  "parse_failed_message =
     [CHR 0xD9, CHR 0x81, CHR 0xD8, CHR 0xB4, CHR 0xD9, CHR 0x84] @ '' '' @
     [CHR 0xD9, CHR 0x81, CHR 0xD9, CHR 0x8A] @ '' '' @
     [CHR 0xD9, CHR 0x82, CHR 0xD8, CHR 0xB1, CHR 0xD8, CHR 0xA7, CHR 0xD8, CHR 0xA1, CHR 0xD8, CHR 0xA9]
     @ '' '' @
     [CHR 0xD8, CHR 0xA8, CHR 0xD9, CHR 0x8A, CHR 0xD8, CHR 0xA7, CHR 0xD9, CHR 0x86, CHR 0xD8, CHR 0xA7,
      CHR 0xD8, CHR 0xAA]
     @ '' JSON '' @ [CHR 0xD9, CHR 0x85, CHR 0xD9, CHR 0x86] @ '' '' @
     [CHR 0xD8, CHR 0xA7, CHR 0xD9, CHR 0x84, CHR 0xD8, CHR 0xA7, CHR 0xD8, CHR 0xB3, CHR 0xD8, CHR 0xAA,
      CHR 0xD8, CHR 0xAC, CHR 0xD8, CHR 0xA7, CHR 0xD8, CHR 0xA8, CHR 0xD8, CHR 0xA9]
     @ ''.''"

text \<open>
  The text that \<open>parseAIResponse\<close> hands to \<open>JSON.parse\<close>: the lines from \<open>replace\<close> to
  \<open>substring\<close>.
\<close>

definition cleanText :: "string \<Rightarrow> string" where
  "cleanText text0 =
     (let cleaned = trim (strip_fences text0);
          firstBracket = indexOf cleaned (CHR ''{'');
          lastBracket = lastIndexOf cleaned (CHR ''}'')
      in if firstBracket \<noteq> - 1 \<and> lastBracket \<noteq> - 1
         then substring cleaned firstBracket (lastBracket + 1)
         else cleaned)"

text \<open>
  \<open>JSON.parse\<close> is the parameter \<open>JSON_parse\<close>: \<open>None\<close> is its \<open>SyntaxError\<close>.
\<close>

definition parseAIResponse :: "(string \<Rightarrow> json option) \<Rightarrow> string option \<Rightarrow> thrown + json" where
  "parseAIResponse JSON_parse text0 =
     (if \<not> truthy_str text0 then Inl (new_Error empty_response_message)
      else (case JSON_parse (cleanText (the text0)) of
              None \<Rightarrow> Inl (new_Error parse_failed_message)
            | Some v \<Rightarrow> Inr v))"

subsection \<open>The backend\<close>

text \<open>
  A request to \<open>ai.models.generateContent\<close>, by the values the task puts into it (model,
  key of the client, and what the prompt template is filled with); the templates, system
  instructions and schemas are constant texts of each task. The call itself is the
  parameter \<open>generateContent\<close> of every task, on a backend state \<open>'b\<close>.
\<close>

datatype quiz_language = Ar | En

datatype difficulty = Easy | Medium | Hard | Intellectual

datatype image_type = CLINICAL | RADIOLOGY | EXPLODED

datatype request =
    SimulationRequest string string string
  | PracticalRequest string string string
  | QuizRequest string string string quiz_language int difficulty
  | ResearchRequest string string string
  | AnalysisRequest string string string
  | ImageRequest string string string "(string \<times> string) list"

text \<open>
  Of a response: \<open>response.text\<close>, the grounding chunks
  \<open>response.candidates?.[0]?.groundingMetadata?.groundingChunks\<close> (a chunk is its
  \<open>web\<close> entry, \<open>uri\<close> and \<open>title\<close>), and of each part of
  \<open>response.candidates?.[0]?.content?.parts\<close> the \<open>inlineData.data\<close> when it has inline data.
\<close>

type_synonym grounding_chunk = "(string \<times> string) option"

record response =
  response_text :: "string option"
  groundingChunks :: "grounding_chunk list option"
  content_parts :: "string option list option"

type_synonym 'b backend = "request \<Rightarrow> 'b \<Rightarrow> (thrown + response) \<times> 'b"

text \<open>The call followed by \<open>parseAIResponse(response.text)\<close>, as four tasks do.\<close>

definition parsed_call ::
  "'b backend \<Rightarrow> (string \<Rightarrow> json option) \<Rightarrow> request \<Rightarrow> 'b \<Rightarrow> (thrown + json) \<times> 'b" where
  "parsed_call generateContent JSON_parse req b =
     (case generateContent req b of
        (Inl e, b') \<Rightarrow> (Inl e, b')
      | (Inr response, b') \<Rightarrow> (parseAIResponse JSON_parse (response_text response), b'))"

subsection \<open>The generation tasks\<close>

text \<open>
  Each task takes the backend call, \<open>JSON.parse\<close>, the random source (by model and loop
  iteration), its own arguments, \<open>process.env.API_KEY\<close> and the backend state. The four
  JSON tasks return the parsed value (the source wraps it as \<open>{ data: ... }\<close>).
\<close>

definition generateSimulationContent ::
  "'b backend \<Rightarrow> (string \<Rightarrow> json option) \<Rightarrow> (string \<Rightarrow> nat \<Rightarrow> real) \<Rightarrow> string \<Rightarrow> string option \<Rightarrow> 'b
     \<Rightarrow> (thrown + json) \<times> retry_event fallback_event list \<times> 'b" where
  "generateSimulationContent generateContent JSON_parse random topic =
     withModelFallback (\<lambda>modelName apiKey.
        withRetry (\<lambda>attempt. parsed_call generateContent JSON_parse (SimulationRequest modelName apiKey topic))
          3 True (random modelName))
       default_models"

definition generatePracticalContent ::
  "'b backend \<Rightarrow> (string \<Rightarrow> json option) \<Rightarrow> (string \<Rightarrow> nat \<Rightarrow> real) \<Rightarrow> string \<Rightarrow> string option \<Rightarrow> 'b
     \<Rightarrow> (thrown + json) \<times> retry_event fallback_event list \<times> 'b" where
  "generatePracticalContent generateContent JSON_parse random topic =
     withModelFallback (\<lambda>modelName apiKey.
        withRetry (\<lambda>attempt. parsed_call generateContent JSON_parse (PracticalRequest modelName apiKey topic))
          3 True (random modelName))
       default_models"

definition generateQuizContent ::
  "'b backend \<Rightarrow> (string \<Rightarrow> json option) \<Rightarrow> (string \<Rightarrow> nat \<Rightarrow> real) \<Rightarrow> string \<Rightarrow> quiz_language \<Rightarrow> int
     \<Rightarrow> difficulty \<Rightarrow> string option \<Rightarrow> 'b
     \<Rightarrow> (thrown + json) \<times> retry_event fallback_event list \<times> 'b" where
  "generateQuizContent generateContent JSON_parse random topic language count difficulty =
     withModelFallback (\<lambda>modelName apiKey.
        withRetry (\<lambda>attempt. parsed_call generateContent JSON_parse
                     (QuizRequest modelName apiKey topic language count difficulty))
          3 True (random modelName))
       default_models"

text \<open>\<open>json.imagePrompts\<close>: reading a property of \<open>null\<close> throws; a value that is no object has none.\<close>

fun get_property :: "json \<Rightarrow> string \<Rightarrow> thrown + json option" where
  "get_property JNull name = Inl (typeError_reading name)"
| "get_property (JObj members) name = Inr (map_of members name)"
| "get_property _ name = Inr None"

definition synthesized_prompts :: "string \<Rightarrow> json list" where
  "synthesized_prompts topic =
     [JStr (''Dental clinical view of '' @ topic), JStr (''Anatomical diagram of '' @ topic),
      JStr (''X-ray of '' @ topic)]"

text \<open>\<^verbatim>\<open>while (prompts.length < 3) prompts.push(`Dental clinical view of ${topic}`)\<close>\<close>

definition pad_prompts :: "string \<Rightarrow> json list \<Rightarrow> json list" where
  "pad_prompts topic prompts =
     prompts @ replicate (3 - length prompts) (JStr (''Dental clinical view of '' @ topic))"

record research_result =
  sources :: "grounding_chunk list"
  prompts :: "json list"

definition research_attempt ::
  "'b backend \<Rightarrow> (string \<Rightarrow> json option) \<Rightarrow> string \<Rightarrow> string \<Rightarrow> string \<Rightarrow> nat \<Rightarrow> 'b
     \<Rightarrow> (thrown + research_result) \<times> 'b" where
  "research_attempt generateContent JSON_parse topic modelName apiKey attempt b =
     (case generateContent (ResearchRequest modelName apiKey topic) b of
        (Inl e, b') \<Rightarrow> (Inl e, b')
      | (Inr response, b') \<Rightarrow>
          (let srcs = (case groundingChunks response of Some cs \<Rightarrow> cs | None \<Rightarrow> []);
               ps = (case parseAIResponse JSON_parse (response_text response) of
                       Inl e \<Rightarrow> synthesized_prompts topic
                     | Inr json \<Rightarrow>
                         (case get_property json ''imagePrompts'' of
                            Inl t \<Rightarrow> synthesized_prompts topic
                          | Inr (Some (JArr imagePrompts)) \<Rightarrow> imagePrompts
                          | Inr _ \<Rightarrow> []))
           in (Inr \<lparr>sources = srcs, prompts = take 3 (pad_prompts topic ps)\<rparr>, b')))"

definition generateResearchContent ::
  "'b backend \<Rightarrow> (string \<Rightarrow> json option) \<Rightarrow> (string \<Rightarrow> nat \<Rightarrow> real) \<Rightarrow> string \<Rightarrow> string option \<Rightarrow> 'b
     \<Rightarrow> (thrown + research_result) \<times> retry_event fallback_event list \<times> 'b" where
  "generateResearchContent generateContent JSON_parse random topic =
     withModelFallback (\<lambda>modelName apiKey.
        withRetry (research_attempt generateContent JSON_parse topic modelName apiKey)
          3 True (random modelName))
       default_models"

text \<open>\<^verbatim>\<open>base64Image.split(',')[1] || base64Image\<close>\<close>

definition base64Data :: "string \<Rightarrow> string" where
  "base64Data base64Image =
     (let second = takeWhile (\<lambda>c. c \<noteq> CHR '','') (drop 1 (dropWhile (\<lambda>c. c \<noteq> CHR '','') base64Image))
      in if second \<noteq> [] then second else base64Image)"

definition analyzeDentalImage ::
  "'b backend \<Rightarrow> (string \<Rightarrow> json option) \<Rightarrow> (string \<Rightarrow> nat \<Rightarrow> real) \<Rightarrow> string \<Rightarrow> string option \<Rightarrow> 'b
     \<Rightarrow> (thrown + json) \<times> retry_event fallback_event list \<times> 'b" where
  "analyzeDentalImage generateContent JSON_parse random base64Image =
     withModelFallback (\<lambda>modelName apiKey.
        withRetry (\<lambda>attempt. parsed_call generateContent JSON_parse
                     (AnalysisRequest modelName apiKey (base64Data base64Image)))
          3 True (random modelName))
       default_models"

definition finalPrompt :: "string \<Rightarrow> image_type \<Rightarrow> string" where
  "finalPrompt prompt type =
     (if type = EXPLODED
      then ''Clean 3D medical illustration, exploded view, dental anatomy: '' @ prompt @ ''. White background''
      else if type = RADIOLOGY
      then ''Digital Dental X-Ray: '' @ prompt @ ''. Diagnostic grayscale''
      else ''Dental education visual aid: '' @ prompt @ ''. High quality, photorealistic, clinical standard.'')"

definition imageConfig :: "string \<Rightarrow> (string \<times> string) list" where
  "imageConfig modelName =
     [(''aspectRatio'', ''16:9'')] @ (if str_includes modelName ''pro-image'' then [(''imageSize'', ''1K'')] else [])"

text \<open>The first part with inline data, as a data URL.\<close>

fun first_inline :: "string option list \<Rightarrow> string option" where
  "first_inline [] = None"
| "first_inline (Some d # ps) = Some (''data:image/png;base64,'' @ d)"
| "first_inline (None # ps) = first_inline ps"

definition image_attempt ::
  "'b backend \<Rightarrow> string \<Rightarrow> image_type \<Rightarrow> string \<Rightarrow> string \<Rightarrow> nat \<Rightarrow> 'b \<Rightarrow> (thrown + string) \<times> 'b" where
  "image_attempt generateContent prompt type modelName apiKey attempt b =
     (case generateContent (ImageRequest modelName apiKey (finalPrompt prompt type) (imageConfig modelName)) b of
        (Inl e, b') \<Rightarrow> (Inl e, b')
      | (Inr response, b') \<Rightarrow>
          (case first_inline (case content_parts response of Some ps \<Rightarrow> ps | None \<Rightarrow> []) of
             Some url \<Rightarrow> (Inr url, b')
           | None \<Rightarrow> (Inl (new_Error ''No image data found in response''), b')))"

definition modelsToTry :: "string list" where
  "modelsToTry = [''gemini-2.5-flash-image'', ''gemini-3-pro-image-preview'']"

text \<open>The image task catches whatever the orchestrator throws and returns \<open>null\<close>: \<open>None\<close>.\<close>

definition generateRealisticDentalImage ::
  "'b backend \<Rightarrow> (string \<Rightarrow> nat \<Rightarrow> real) \<Rightarrow> string \<Rightarrow> image_type \<Rightarrow> string option \<Rightarrow> 'b
     \<Rightarrow> (thrown + string option) \<times> retry_event fallback_event list \<times> 'b" where
  "generateRealisticDentalImage generateContent random prompt type env_API_KEY b =
     (case withModelFallback (\<lambda>modelName apiKey.
              withRetry (image_attempt generateContent prompt type modelName apiKey) 2 True (random modelName))
            modelsToTry env_API_KEY b of
        (Inr url, evs, b') \<Rightarrow> (Inr (Some url), evs, b')
      | (Inl e, evs, b') \<Rightarrow> (Inr None, evs, b'))"

text \<open>\<open>checkApiConnection\<close>: \<open>!!getApiKey()\<close>.\<close>

definition checkApiConnection :: "string option \<Rightarrow> bool" where
  "checkApiConnection env_API_KEY = truthy_str env_API_KEY"

subsection \<open>The state of the application\<close>

text \<open>
  The state of the component \<open>App\<close>, as far as \<open>handleConvert\<close> reads or writes it. The
  constant texts of status lines and chat messages are constructors; \<open>ErrorDetail msg\<close>
  is the status line that shows the first hundred characters of \<open>msg\<close>. A payload is
  taken to have the shape of its TypeScript interface, and only the fields the handler
  reads are kept.
\<close>

datatype tab = Simulation | Practical | Gallery | Quiz

datatype image_status = Pending | Loading | Completed | Failed

datatype status_text = ApiKeyStop | UseSimulationTab | TryAgainShortly | ApiKeyEnvError
  | ErrorDetail string

datatype chat_role = User | Assistant

datatype chat_content = Verbatim string | ClinicalImageAnalysis | NewRequest
  | SurgeonReport string bool | SimulationCreated string | MentorCalled string
  | VisualSearchRunning string | QuizBankCreated int string quiz_language difficulty

record chat_message =
  role :: chat_role
  content :: chat_content
  visual :: "string option"

record practical_step =
  step_id :: string
  title :: string
  visualPrompt :: "string option"
  imageUrl :: "string option"
  imageStatus :: "image_status option"

text \<open>\<open>adaCompliance\<close> is \<open>adaCompliance.compliant\<close>, \<open>None\<close> when the analysis has no \<open>adaCompliance\<close>.\<close>

record image_analysis =
  detailedClinicalAnalysis :: string
  adaCompliance :: "bool option"

record clinical_data =
  theorySummary :: "string option"
  imagePrompt :: "string option"
  radiologyPrompt :: "string option"
  explodedPrompt :: "string option"
  practicalProtocol :: "practical_step list option"
  analysisResult :: "image_analysis option"

record simulation_data =
  sim_data :: "clinical_data option"
  url :: "string option"
  radiologyUrl :: "string option"
  explodedUrl :: "string option"

record raw_quiz =
  raw_essayQuestions :: "string list option"
  raw_shortAnswerQuestions :: "string list option"
  raw_mcqQuestions :: "string list option"

record quiz_data =
  essayQuestions :: "string list"
  shortAnswerQuestions :: "string list"
  mcqQuestions :: "string list"

record gallery_item =
  gallery_id :: nat
  gallery_prompt :: string
  gallery_imageUrl :: "string option"
  gallery_status :: image_status
  gallery_source :: "grounding_chunk option"

record research =
  research_sources :: "grounding_chunk list"
  research_prompts :: "string list"

record app_state =
  input :: string
  messages :: "chat_message list"
  activeTab :: tab
  errorStatus :: "status_text option"
  checkedPracticalSteps :: "string list"
  uploadedImage :: "string option"
  apiKeyMissing :: bool
  simulationData :: simulation_data
  practicalData :: "clinical_data option"
  quizData :: "quiz_data option"
  revealedAnswers :: "(string \<times> bool) list"
  quizLanguage :: quiz_language
  quizCount :: int
  quizDifficulty :: difficulty
  galleryItems :: "gallery_item list"
  loading :: bool

text \<open>The state the component starts with (its \<open>useState\<close> defaults).\<close>

definition initial_app :: app_state where
  "initial_app =
     \<lparr>input = [], messages = [], activeTab = Simulation, errorStatus = None,
      checkedPracticalSteps = [], uploadedImage = None, apiKeyMissing = False,
      simulationData = \<lparr>sim_data = None, url = None, radiologyUrl = None, explodedUrl = None\<rparr>,
      practicalData = None, quizData = None, revealedAnswers = [],
      quizLanguage = Ar, quizCount = 5, quizDifficulty = Medium,
      galleryItems = [], loading = False\<rparr>"

text \<open>
  The generation tasks as the handler sees them: each call gives its outcome and the new
  backend state.
\<close>

record 'b services =
  svc_analyzeDentalImage :: "string \<Rightarrow> 'b \<Rightarrow> (thrown + image_analysis) \<times> 'b"
  svc_generateSimulationContent :: "string \<Rightarrow> 'b \<Rightarrow> (thrown + clinical_data) \<times> 'b"
  svc_generatePracticalContent :: "string \<Rightarrow> 'b \<Rightarrow> (thrown + clinical_data) \<times> 'b"
  svc_generateResearchContent :: "string \<Rightarrow> 'b \<Rightarrow> (thrown + research) \<times> 'b"
  svc_generateQuizContent ::
    "string \<Rightarrow> quiz_language \<Rightarrow> int \<Rightarrow> difficulty \<Rightarrow> 'b \<Rightarrow> (thrown + raw_quiz) \<times> 'b"
  svc_generateRealisticDentalImage :: "string \<Rightarrow> image_type \<Rightarrow> 'b \<Rightarrow> (thrown + string option) \<times> 'b"

subsection \<open>The image batches\<close>

text \<open>
  The events of a batch, in order: \<open>ImageCall i\<close> is the call of
  \<open>generateRealisticDentalImage\<close> for the item \<open>i\<close>, \<open>StatusSet i s\<close> the state update that
  records its outcome, \<open>ImageStored i\<close> the update that stores an image of the
  simulation, \<open>MarkLoading i\<close> the update that marks a step as loading, \<open>Warned i\<close> a
  \<open>console.warn\<close>, \<open>Cooldown t\<close> the wait of \<open>t\<close> milliseconds.

  A batch is run on the state alone: no other handler writes the workspace while it
  runs.
\<close>

datatype batch_event = ImageCall nat | StatusSet nat image_status | ImageStored nat
  | MarkLoading nat | Warned nat | Cooldown real

text \<open>\<open>[0, 1, ...]\<close> paired with the elements: the loop index and \<open>xs[i]\<close>.\<close>

definition indexed :: "'a list \<Rightarrow> (nat \<times> 'a) list" where
  "indexed xs = zip [0..<length xs] xs"

paragraph \<open>Simulation\<close>

datatype sim_key = Url | RadiologyUrl | ExplodedUrl

fun set_sim_key :: "sim_key \<Rightarrow> string \<Rightarrow> simulation_data \<Rightarrow> simulation_data" where
  "set_sim_key Url img prev = prev\<lparr>url := Some img\<rparr>"
| "set_sim_key RadiologyUrl img prev = prev\<lparr>radiologyUrl := Some img\<rparr>"
| "set_sim_key ExplodedUrl img prev = prev\<lparr>explodedUrl := Some img\<rparr>"

text \<open>\<open>data.imagePrompt || userMessage\<close>\<close>

definition prompt_or :: "string option \<Rightarrow> string \<Rightarrow> string" where
  "prompt_or p userMessage = (if truthy_str p then the p else userMessage)"

definition imageRequests :: "clinical_data \<Rightarrow> string \<Rightarrow> (string \<times> image_type \<times> sim_key) list" where
  "imageRequests d userMessage =
     [(prompt_or (imagePrompt d) userMessage, CLINICAL, Url),
      (prompt_or (radiologyPrompt d) userMessage, RADIOLOGY, RadiologyUrl),
      (prompt_or (explodedPrompt d) userMessage, EXPLODED, ExplodedUrl)]"

text \<open>The loop \<open>for (const req of imageRequests)\<close>; the wait stands inside the \<open>try\<close>, after the \<open>if\<close>.\<close>

fun simulation_images ::
  "(string \<Rightarrow> image_type \<Rightarrow> 'b \<Rightarrow> (thrown + string option) \<times> 'b)
     \<Rightarrow> (nat \<times> string \<times> image_type \<times> sim_key) list \<Rightarrow> simulation_data \<Rightarrow> 'b
     \<Rightarrow> simulation_data \<times> batch_event list \<times> 'b" where
  "simulation_images gen [] sd b = (sd, [], b)"
| "simulation_images gen ((i, prompt, type, key) # rest) sd b =
     (case gen prompt type b of
        (Inr img, b') \<Rightarrow>
          (let sd' = (if truthy_str img then set_sim_key key (the img) sd else sd);
               evs = [ImageCall i, (if truthy_str img then ImageStored i else Warned i), Cooldown 6000]
           in case simulation_images gen rest sd' b' of
                (sd'', evs', b'') \<Rightarrow> (sd'', evs @ evs', b''))
      | (Inl imgError, b') \<Rightarrow>
          (case simulation_images gen rest sd b' of
             (sd'', evs', b'') \<Rightarrow> (sd'', [ImageCall i, Warned i] @ evs', b'')))"

paragraph \<open>Gallery\<close>

text \<open>The two updates of \<open>setGalleryItems\<close>, guarded by \<open>if (updated[i])\<close>.\<close>

definition gallery_record :: "nat \<Rightarrow> string option \<Rightarrow> gallery_item list \<Rightarrow> gallery_item list" where
  "gallery_record i img current =
     (if i < length current
      then current[i := (current ! i)\<lparr>gallery_imageUrl := (if truthy_str img then img else None),
                                     gallery_status := (if truthy_str img then Completed else Failed)\<rparr>]
      else current)"

definition gallery_fail :: "nat \<Rightarrow> gallery_item list \<Rightarrow> gallery_item list" where
  "gallery_fail i current =
     (if i < length current then current[i := (current ! i)\<lparr>gallery_status := Failed\<rparr>] else current)"

fun gallery_loop ::
  "(string \<Rightarrow> image_type \<Rightarrow> 'b \<Rightarrow> (thrown + string option) \<times> 'b)
     \<Rightarrow> (nat \<times> gallery_item) list \<Rightarrow> gallery_item list \<Rightarrow> 'b
     \<Rightarrow> gallery_item list \<times> batch_event list \<times> 'b" where
  "gallery_loop gen [] current b = (current, [], b)"
| "gallery_loop gen ((i, item) # rest) current b =
     (case gen (gallery_prompt item) CLINICAL b of
        (Inr img, b') \<Rightarrow>
          (let evs = [ImageCall i, StatusSet i (if truthy_str img then Completed else Failed)]
                     @ (if truthy_str img then [Cooldown 6000] else [])
           in case gallery_loop gen rest (gallery_record i img current) b' of
                (current', evs', b'') \<Rightarrow> (current', evs @ evs', b''))
      | (Inl e, b') \<Rightarrow>
          (case gallery_loop gen rest (gallery_fail i current) b' of
             (current', evs', b'') \<Rightarrow> (current', [ImageCall i, StatusSet i Failed] @ evs', b'')))"

text \<open>The background job of the gallery: \<open>items\<close> is the copy of \<open>initialItems\<close> it loops over.\<close>

definition gallery_batch ::
  "(string \<Rightarrow> image_type \<Rightarrow> 'b \<Rightarrow> (thrown + string option) \<times> 'b)
     \<Rightarrow> gallery_item list \<Rightarrow> gallery_item list \<Rightarrow> 'b
     \<Rightarrow> gallery_item list \<times> batch_event list \<times> 'b" where
  "gallery_batch gen items current b = gallery_loop gen (indexed items) current b"

paragraph \<open>Practical protocol\<close>

text \<open>
  The three updates of \<open>setPracticalData\<close>. They index \<open>newSteps[i]\<close> without a guard; with
  an index past the end (which needs another request to have replaced the protocol
  meanwhile) the first throws and the others extend the array. Such a write is
  \<open>StaleIndex\<close>, and the model of the batch ends there.
\<close>

datatype stale = StaleIndex

definition practical_mark_loading :: "nat \<Rightarrow> clinical_data option \<Rightarrow> stale + clinical_data option" where
  "practical_mark_loading i current =
     (case current of
        None \<Rightarrow> Inr current
      | Some d \<Rightarrow>
          (case practicalProtocol d of
             None \<Rightarrow> Inr current
           | Some newSteps \<Rightarrow>
               if i < length newSteps
               then Inr (Some (d\<lparr>practicalProtocol :=
                       Some (if imageStatus (newSteps ! i) = Some Pending
                             then newSteps[i := (newSteps ! i)\<lparr>imageStatus := Some Loading\<rparr>]
                             else newSteps)\<rparr>))
               else Inl StaleIndex))"

definition practical_record :: "nat \<Rightarrow> string option \<Rightarrow> clinical_data option \<Rightarrow> stale + clinical_data option" where
  "practical_record i img current =
     (case current of
        None \<Rightarrow> Inr current
      | Some d \<Rightarrow>
          (case practicalProtocol d of
             None \<Rightarrow> Inr current
           | Some newSteps \<Rightarrow>
               if i < length newSteps
               then Inr (Some (d\<lparr>practicalProtocol :=
                       Some (newSteps[i := (newSteps ! i)
                               \<lparr>imageUrl := (if truthy_str img then img else None),
                                imageStatus := Some (if truthy_str img then Completed else Failed)\<rparr>])\<rparr>))
               else Inl StaleIndex))"

definition practical_fail :: "nat \<Rightarrow> clinical_data option \<Rightarrow> stale + clinical_data option" where
  "practical_fail i current =
     (case current of
        None \<Rightarrow> Inr current
      | Some d \<Rightarrow>
          (case practicalProtocol d of
             None \<Rightarrow> Inr current
           | Some newSteps \<Rightarrow>
               if i < length newSteps
               then Inr (Some (d\<lparr>practicalProtocol :=
                       Some (newSteps[i := (newSteps ! i)\<lparr>imageStatus := Some Failed\<rparr>])\<rparr>))
               else Inl StaleIndex))"

fun practical_loop ::
  "(string \<Rightarrow> image_type \<Rightarrow> 'b \<Rightarrow> (thrown + string option) \<times> 'b)
     \<Rightarrow> (nat \<times> practical_step) list \<Rightarrow> clinical_data option \<Rightarrow> 'b
     \<Rightarrow> (stale + clinical_data option) \<times> batch_event list \<times> 'b" where
  "practical_loop gen [] current b = (Inr current, [], b)"
| "practical_loop gen ((i, step) # rest) current b =
     (if truthy_str (visualPrompt step) then
        (case practical_mark_loading i current of
           Inl s \<Rightarrow> (Inl s, [MarkLoading i], b)
         | Inr current1 \<Rightarrow>
             (case gen (the (visualPrompt step)) CLINICAL b of
                (Inr img, b') \<Rightarrow>
                  (case practical_record i img current1 of
                     Inl s \<Rightarrow> (Inl s, [MarkLoading i, ImageCall i], b')
                   | Inr current2 \<Rightarrow>
                       (let evs = [MarkLoading i, ImageCall i,
                                   StatusSet i (if truthy_str img then Completed else Failed)]
                                  @ (if truthy_str img then [Cooldown 6000] else [])
                        in case practical_loop gen rest current2 b' of
                             (r, evs', b'') \<Rightarrow> (r, evs @ evs', b'')))
              | (Inl e, b') \<Rightarrow>
                  (case practical_fail i current1 of
                     Inl s \<Rightarrow> (Inl s, [MarkLoading i, ImageCall i, Warned i], b')
                   | Inr current2 \<Rightarrow>
                       (case practical_loop gen rest current2 b' of
                          (r, evs', b'') \<Rightarrow>
                            (r, [MarkLoading i, ImageCall i, Warned i, StatusSet i Failed] @ evs', b'')))))
      else practical_loop gen rest current b)"

definition practical_batch ::
  "(string \<Rightarrow> image_type \<Rightarrow> 'b \<Rightarrow> (thrown + string option) \<times> 'b)
     \<Rightarrow> practical_step list \<Rightarrow> clinical_data option \<Rightarrow> 'b
     \<Rightarrow> (stale + clinical_data option) \<times> batch_event list \<times> 'b" where
  "practical_batch gen steps current b = practical_loop gen (indexed steps) current b"

paragraph \<open>The cooldown rule\<close>

text \<open>
  The rule of the batch runner, read on a trace: the update that records an image
  (\<open>StatusSet i Completed\<close>, or \<open>ImageStored i\<close> in the simulation) is followed at once by
  a wait of 6000 ms, and no wait stands anywhere else.
\<close>

fun cooldown_rule :: "batch_event list \<Rightarrow> bool" where
  "cooldown_rule [] = True"
| "cooldown_rule (StatusSet i Completed # Cooldown t # evs) = (t = 6000 \<and> cooldown_rule evs)"
| "cooldown_rule (StatusSet i Completed # evs) = False"
| "cooldown_rule (ImageStored i # Cooldown t # evs) = (t = 6000 \<and> cooldown_rule evs)"
| "cooldown_rule (ImageStored i # evs) = False"
| "cooldown_rule (Cooldown t # evs) = False"
| "cooldown_rule (e # evs) = cooldown_rule evs"

subsection \<open>handleConvert\<close>

text \<open>What the handler leaves running in the background when it returns.\<close>

datatype background = NoJob | PracticalJob "practical_step list" | GalleryJob "gallery_item list"

definition say :: "chat_content \<Rightarrow> app_state \<Rightarrow> app_state" where
  "say c app = app\<lparr>messages := messages app @ [\<lparr>role = Assistant, content = c, visual = None\<rparr>]\<rparr>"

text \<open>\<open>error?.toString()\<close>\<close>

fun to_string_of :: "thrown \<Rightarrow> string option" where
  "to_string_of Undefined = None"
| "to_string_of (Str s) = Some s"
| "to_string_of (Obj e) = Some (to_string e)"

text \<open>The \<open>catch\<close> block.\<close>

definition catch_block :: "thrown \<Rightarrow> app_state \<Rightarrow> app_state" where
  "catch_block error app =
     (let msg = (if truthy_str (message_of error) then the (message_of error)
                 else if truthy_str (to_string_of error) then the (to_string_of error)
                 else ''Unknown Error'')
      in if str_includes (toLowerCase msg) ''quota'' \<or> str_includes msg ''429''
         then app\<lparr>errorStatus := Some TryAgainShortly\<rparr>
         else if str_includes msg ''API_KEY''
         then app\<lparr>apiKeyMissing := True, errorStatus := Some ApiKeyEnvError\<rparr>
         else app\<lparr>errorStatus := Some (ErrorDetail msg)\<rparr>)"

text \<open>The \<open>finally\<close> block; \<open>tab\<close> is the \<open>activeTab\<close> the handler was called with.\<close>

definition finally_block :: "tab \<Rightarrow> app_state \<Rightarrow> app_state" where
  "finally_block t app =
     (let app' = (if t \<noteq> Practical \<and> t \<noteq> Gallery then app\<lparr>loading := False\<rparr> else app)
      in app'\<lparr>input := []\<rparr>)"

text \<open>
  The \<open>try\<close> block, branch by branch. The first component of the result is the value
  thrown, if the block threw; a block that returns or runs to its end gives \<open>None\<close>.
\<close>

definition try_simulation ::
  "'b services \<Rightarrow> string \<Rightarrow> app_state \<Rightarrow> 'b
     \<Rightarrow> thrown option \<times> app_state \<times> batch_event list \<times> 'b \<times> background" where
  "try_simulation svc userMessage app b =
     (if truthy_str (uploadedImage app) then
        (case svc_analyzeDentalImage svc (the (uploadedImage app)) b of
           (Inl e, b') \<Rightarrow> (Some e, app, [], b', NoJob)
         | (Inr analysis, b') \<Rightarrow>
             (case adaCompliance analysis of
                None \<Rightarrow> (Some (typeError_reading ''compliant''), app, [], b', NoJob)
              | Some compliant \<Rightarrow>
                  (None,
                   (say (SurgeonReport (detailedClinicalAnalysis analysis) compliant) app)
                     \<lparr>simulationData :=
                        \<lparr>sim_data = Some \<lparr>theorySummary = None, imagePrompt = None,
                                          radiologyPrompt = None, explodedPrompt = None,
                                          practicalProtocol = None, analysisResult = Some analysis\<rparr>,
                         url = uploadedImage app, radiologyUrl = None, explodedUrl = None\<rparr>,
                      uploadedImage := None\<rparr>,
                   [], b', NoJob)))
      else
        (case svc_generateSimulationContent svc userMessage b of
           (Inl e, b') \<Rightarrow> (Some e, app, [], b', NoJob)
         | (Inr d, b') \<Rightarrow>
             (let app1 = say (SimulationCreated userMessage)
                           (app\<lparr>simulationData :=
                              \<lparr>sim_data = Some d, url = None, radiologyUrl = None, explodedUrl = None\<rparr>\<rparr>)
              in case simulation_images (svc_generateRealisticDentalImage svc)
                        (indexed (imageRequests d userMessage)) (simulationData app1) b' of
                   (sd, evs, b'') \<Rightarrow> (None, app1\<lparr>simulationData := sd\<rparr>, evs, b'', NoJob))))"

definition try_practical ::
  "'b services \<Rightarrow> string \<Rightarrow> app_state \<Rightarrow> 'b
     \<Rightarrow> thrown option \<times> app_state \<times> batch_event list \<times> 'b \<times> background" where
  "try_practical svc userMessage app b =
     (if truthy_str (uploadedImage app)
      then (None, app\<lparr>errorStatus := Some UseSimulationTab, loading := False\<rparr>, [], b, NoJob)
      else
        (let app1 = app\<lparr>checkedPracticalSteps := []\<rparr>
         in case svc_generatePracticalContent svc userMessage b of
              (Inl e, b') \<Rightarrow> (Some e, app1, [], b', NoJob)
            | (Inr d, b') \<Rightarrow>
                (case practicalProtocol d of
                   None \<Rightarrow> (Some (typeError_reading ''map''), app1, [], b', NoJob)
                 | Some protocol \<Rightarrow>
                     (let initialSteps =
                            map (\<lambda>s. s\<lparr>imageStatus :=
                                   Some (if truthy_str (visualPrompt s) then Pending else Completed)\<rparr>)
                              protocol;
                          dataWithStatus = d\<lparr>practicalProtocol := Some initialSteps\<rparr>
                      in (None,
                          (say (MentorCalled userMessage) (app1\<lparr>practicalData := Some dataWithStatus\<rparr>))
                            \<lparr>loading := False, input := []\<rparr>,
                          [], b', PracticalJob initialSteps)))))"

definition try_gallery ::
  "'b services \<Rightarrow> string \<Rightarrow> app_state \<Rightarrow> 'b
     \<Rightarrow> thrown option \<times> app_state \<times> batch_event list \<times> 'b \<times> background" where
  "try_gallery svc userMessage app b =
     (let app1 = app\<lparr>galleryItems := []\<rparr>;
          topic = (if userMessage \<noteq> [] then userMessage
                   else if sim_data (simulationData app) \<noteq> None then ''Dental procedures''
                   else ''Dentistry'')
      in case svc_generateResearchContent svc topic b of
           (Inl e, b') \<Rightarrow> (Some e, app1, [], b', NoJob)
         | (Inr result, b') \<Rightarrow>
             (let initialItems =
                    map (\<lambda>(i, p). \<lparr>gallery_id = i, gallery_prompt = p, gallery_imageUrl = None,
                                    gallery_status = Loading,
                                    gallery_source = (if i < length (research_sources result)
                                                      then Some (research_sources result ! i) else None)\<rparr>)
                      (indexed (research_prompts result))
              in (None,
                  (say (VisualSearchRunning userMessage) (app1\<lparr>galleryItems := initialItems\<rparr>))
                    \<lparr>loading := False, input := []\<rparr>,
                  [], b', GalleryJob initialItems)))"

definition try_quiz ::
  "'b services \<Rightarrow> string \<Rightarrow> app_state \<Rightarrow> 'b
     \<Rightarrow> thrown option \<times> app_state \<times> batch_event list \<times> 'b \<times> background" where
  "try_quiz svc userMessage app b =
     (let app1 = app\<lparr>quizData := None, revealedAnswers := []\<rparr>
      in case svc_generateQuizContent svc userMessage (quizLanguage app) (quizCount app)
                (quizDifficulty app) b of
           (Inl e, b') \<Rightarrow> (Some e, app1, [], b', NoJob)
         | (Inr rawData, b') \<Rightarrow>
             (None,
              (say (QuizBankCreated (quizCount app) userMessage (quizLanguage app) (quizDifficulty app))
                 (app1\<lparr>quizData := Some
                    \<lparr>essayQuestions = (case raw_essayQuestions rawData of Some q \<Rightarrow> q | None \<Rightarrow> []),
                     shortAnswerQuestions = (case raw_shortAnswerQuestions rawData of Some q \<Rightarrow> q | None \<Rightarrow> []),
                     mcqQuestions = (case raw_mcqQuestions rawData of Some q \<Rightarrow> q | None \<Rightarrow> [])\<rparr>\<rparr>))
                \<lparr>input := [], loading := False\<rparr>,
              [], b', NoJob))"

definition try_block ::
  "'b services \<Rightarrow> string \<Rightarrow> app_state \<Rightarrow> 'b
     \<Rightarrow> thrown option \<times> app_state \<times> batch_event list \<times> 'b \<times> background" where
  "try_block svc userMessage app b =
     (case activeTab app of
        Simulation \<Rightarrow> try_simulation svc userMessage app b
      | Practical \<Rightarrow> try_practical svc userMessage app b
      | Gallery \<Rightarrow> try_gallery svc userMessage app b
      | Quiz \<Rightarrow> try_quiz svc userMessage app b)"

definition handleConvert ::
  "'b services \<Rightarrow> app_state \<Rightarrow> 'b \<Rightarrow> app_state \<times> batch_event list \<times> 'b \<times> background" where
  "handleConvert svc app b =
     (if apiKeyMissing app then (app\<lparr>errorStatus := Some ApiKeyStop\<rparr>, [], b, NoJob)
      else if (trim (input app) = [] \<and> \<not> truthy_str (uploadedImage app)) \<or> loading app
      then (app, [], b, NoJob)
      else
        (let userMessage = input app;
             newMessage = \<lparr>role = User,
                           content = (if userMessage \<noteq> [] then Verbatim userMessage
                                      else if truthy_str (uploadedImage app) then ClinicalImageAnalysis
                                      else NewRequest),
                           visual = (if truthy_str (uploadedImage app) then uploadedImage app else None)\<rparr>;
             app1 = app\<lparr>errorStatus := None, loading := True, messages := messages app @ [newMessage]\<rparr>
         in case try_block svc userMessage app1 b of
              (None, app2, evs, b', job) \<Rightarrow> (finally_block (activeTab app) app2, evs, b', job)
            | (Some error, app2, evs, b', job) \<Rightarrow>
                (finally_block (activeTab app) (catch_block error app2), evs, b', job)))"

text \<open>
  The primary generation task that \<open>handleConvert\<close> awaits in the state \<open>app\<close> (past
  its guards), with the outcome of the call, the payload dropped; \<open>None\<close> when the
  handler makes no call.
\<close>

definition outcome_of :: "(thrown + 'a) \<times> 'b \<Rightarrow> (thrown + unit) \<times> 'b" where
  "outcome_of r = (case r of (Inl e, b') \<Rightarrow> (Inl e, b') | (Inr v, b') \<Rightarrow> (Inr (), b'))"

definition primary_call :: "'b services \<Rightarrow> app_state \<Rightarrow> 'b \<Rightarrow> ((thrown + unit) \<times> 'b) option" where
  "primary_call svc app b =
     (case activeTab app of
        Simulation \<Rightarrow>
          if truthy_str (uploadedImage app)
          then Some (outcome_of (svc_analyzeDentalImage svc (the (uploadedImage app)) b))
          else Some (outcome_of (svc_generateSimulationContent svc (input app) b))
      | Practical \<Rightarrow>
          if truthy_str (uploadedImage app) then None
          else Some (outcome_of (svc_generatePracticalContent svc (input app) b))
      | Gallery \<Rightarrow>
          Some (outcome_of (svc_generateResearchContent svc
                  (if input app \<noteq> [] then input app
                   else if sim_data (simulationData app) \<noteq> None then ''Dental procedures''
                   else ''Dentistry'') b))
      | Quiz \<Rightarrow>
          Some (outcome_of (svc_generateQuizContent svc (input app) (quizLanguage app) (quizCount app)
                  (quizDifficulty app) b)))"

text \<open>Services of which every task throws \<open>e\<close>, for the examples.\<close>

definition failing_services :: "thrown \<Rightarrow> 'b services" where
  "failing_services e =
     \<lparr>svc_analyzeDentalImage = (\<lambda>img b. (Inl e, b)),
      svc_generateSimulationContent = (\<lambda>topic b. (Inl e, b)),
      svc_generatePracticalContent = (\<lambda>topic b. (Inl e, b)),
      svc_generateResearchContent = (\<lambda>topic b. (Inl e, b)),
      svc_generateQuizContent = (\<lambda>topic language count difficulty b. (Inl e, b)),
      svc_generateRealisticDentalImage = (\<lambda>prompt type b. (Inl e, b))\<rparr>"

section \<open>Properties\<close>

subsection \<open>Searching and lowering\<close>





subsection \<open>Classification\<close>





lemma key_missing_Fatal: "classify (new_Error key_missing_message) = Inr Fatal"
  by code_simp

subsection \<open>The retry policy\<close>


lemma withRetry_success_first:
  assumes "0 < retries" and "fn 0 b = (Inr v, b')"
  shows "withRetry fn retries q random b = (Inr v, [Attempt 0], b')"
  unfolding withRetry_def
  by (subst withRetry_from.simps) (simp add: assms)

lemma withRetry_from_retry:
  assumes "fn i b = (Inl e, b')" and "isRetryableError e q = Inr True" and "int i < retries - 1"
  shows "withRetry_from fn retries q random i le b =
           (case withRetry_from fn retries q random (Suc i) e b' of
              (r, evs, b'') \<Rightarrow> (r, Attempt i # Backoff (waitTime e i (random i)) # evs, b''))"
  using assms by (subst withRetry_from.simps) simp

lemma withRetry_from_last:
  assumes "fn i b = (Inl e, b')" and "isRetryableError e q = Inr True" and "int i = retries - 1"
  shows "withRetry_from fn retries q random i le b = (Inl e, [Attempt i], b')"
  using assms by (subst withRetry_from.simps) simp

text \<open>A budget of three against an error that is always retried: three attempts, two waits.\<close>

lemma withRetry_three_attempts:
  assumes fails: "\<And>i b. fn i b = (Inl e, b)"
    and retryable: "isRetryableError e True = Inr True"
  shows "withRetry fn 3 True random b =
           (Inl e, [Attempt 0, Backoff (waitTime e 0 (random 0)),
                    Attempt 1, Backoff (waitTime e 1 (random 1)), Attempt 2], b)"
proof -
  have 2: "withRetry_from fn 3 True random 2 e b = (Inl e, [Attempt 2], b)"
    by (rule withRetry_from_last[OF fails retryable]) simp
  have 1: "withRetry_from fn 3 True random 1 e b
             = (Inl e, [Attempt 1, Backoff (waitTime e 1 (random 1)), Attempt 2], b)"
    using withRetry_from_retry[OF fails retryable, where i = 1 and retries = 3 and random = random
        and le = e and b = b] 2
    by (simp add: numeral_2_eq_2)
  show ?thesis
    unfolding withRetry_def
    using withRetry_from_retry[OF fails retryable, where i = 0 and retries = 3 and random = random
        and le = Undefined and b = b] 1
    by simp
qed

text \<open>
  The waits are within the bounds of the specification when the quota test of
  \<open>withRetry\<close> itself holds of the error.
\<close>

lemma waitTime_quota_bounds:
  assumes "retry_isQuota e" and "0 \<le> r" and "r < 1"
  shows "8000 * 2 ^ i \<le> waitTime e i r \<and> waitTime e i r < 8000 * 2 ^ i + 1000"
  using assms by (simp add: waitTime_def)

text \<open>
  C3. An error object of the shape \<open>{error: {code: 429, message: "Too Many Requests"}}\<close>
  is rate-limited for \<open>isRetryableError\<close> (by \<open>error.error.code\<close>), so a budget of three
  with \<open>retryOnQuota\<close> makes three attempts; but the quota test of \<open>withRetry\<close> reads
  \<open>error.message\<close> and \<open>error.status\<close> only, and the waits are \<open>2000 * 2^i\<close> plus the
  jitter, not \<open>8000 * 2^i\<close> plus the jitter.
\<close>

theorem withRetry_nested_429_short_backoff:
  \<open>classify (Obj \<lparr>message = None, status = JUndefined, code = JUndefined,
                  error_message = Some ''Too Many Requests'', error_code = JNumber 429,
                  json_text = ''{"error":{"code":429,"message":"Too Many Requests"}}'',
                  to_string = ''[object Object]''\<rparr>) = Inr RateLimited \<and>
   withRetry (\<lambda>i b. (Inl (Obj \<lparr>message = None, status = JUndefined, code = JUndefined,
                  error_message = Some ''Too Many Requests'', error_code = JNumber 429,
                  json_text = ''{"error":{"code":429,"message":"Too Many Requests"}}'',
                  to_string = ''[object Object]''\<rparr>), b)) 3 True random b
     = (Inl (Obj \<lparr>message = None, status = JUndefined, code = JUndefined,
                  error_message = Some ''Too Many Requests'', error_code = JNumber 429,
                  json_text = ''{"error":{"code":429,"message":"Too Many Requests"}}'',
                  to_string = ''[object Object]''\<rparr>) :: thrown + 'a,
        [Attempt 0, Backoff (2000 + random 0 * 1000), Attempt 1, Backoff (4000 + random 1 * 1000),
         Attempt 2], b :: 'b)\<close>
proof -
  let ?e = \<open>Obj \<lparr>message = None, status = JUndefined, code = JUndefined,
                  error_message = Some ''Too Many Requests'', error_code = JNumber 429,
                  json_text = ''{"error":{"code":429,"message":"Too Many Requests"}}'',
                  to_string = ''[object Object]''\<rparr>\<close>
  have r: "isRetryableError ?e q = Inr q" for q
    by (simp add: isRetryableError_def retry_status_def js_or_def)
  have c: "classify ?e = Inr RateLimited"
    by (simp add: classify_def r)
  have nq: "\<not> retry_isQuota ?e"
    by code_simp
  have w: "waitTime ?e i x = 2000 * 2 ^ i + x * 1000" for i x
    using nq by (simp add: waitTime_def)
  show ?thesis
    using withRetry_three_attempts[of "\<lambda>i b. (Inl ?e, b)" ?e random b, OF refl r[of True]] c
    by (simp add: w)
qed

theorem withRetry_nested_429_short_backoff_witness:
  \<open>withRetry (\<lambda>i b. (Inl (Obj \<lparr>message = None, status = JUndefined, code = JUndefined,
                  error_message = Some ''Too Many Requests'', error_code = JNumber 429,
                  json_text = ''{"error":{"code":429,"message":"Too Many Requests"}}'',
                  to_string = ''[object Object]''\<rparr>), b)) 3 True (\<lambda>i. 1 / 2) (0::nat)
     = (Inl (Obj \<lparr>message = None, status = JUndefined, code = JUndefined,
                  error_message = Some ''Too Many Requests'', error_code = JNumber 429,
                  json_text = ''{"error":{"code":429,"message":"Too Many Requests"}}'',
                  to_string = ''[object Object]''\<rparr>) :: thrown + string,
        [Attempt 0, Backoff 2500, Attempt 1, Backoff 4500, Attempt 2], 0)\<close>
  using withRetry_nested_429_short_backoff[of "\<lambda>i. 1 / 2" "0::nat", where ?'a = string]
  by simp



subsection \<open>The fallback orchestrator\<close>

lemma fallback_from_no_GetApiKey:
  "GetApiKey \<notin> set (fst (snd (withModelFallback_from operation apiKey models rest lastError b)))"
proof (induction rest arbitrary: lastError b)
  case Nil
  then show ?case by simp
next
  case (Cons model rest)
  show ?case
  proof (cases "operation model apiKey b")
    case (fields r evs b')
    show ?thesis
    proof (cases r)
      case (Inr v)
      with fields show ?thesis by auto
    next
      case (Inl error)
      then show ?thesis
        using fields Cons.IH[of error b']
        by (cases error) (auto simp: Let_def split: prod.splits)
    qed
  qed
qed

text \<open>
  C5. An error with \<open>status\<close> 429 and the message \<open>Too Many Requests\<close> is rate-limited for
  the retry policy, but the fallback loop looks for \<open>429\<close> and \<open>quota\<close> in
  \<open>error.message\<close> only: between the two models it waits one second, not eight. (The
  retry budget is one here, to keep the backoff out of the trace.)
\<close>

theorem fallback_status_429_short_cooldown:
  \<open>classify (Obj \<lparr>message = Some ''Too Many Requests'', status = JNumber 429, code = JUndefined,
                  error_message = None, error_code = JUndefined,
                  json_text = ''{"status":429}'', to_string = ''Error: Too Many Requests''\<rparr>)
     = Inr RateLimited \<and>
   withModelFallback
     (\<lambda>model apiKey. withRetry
        (\<lambda>i b. (Inl (Obj \<lparr>message = Some ''Too Many Requests'', status = JNumber 429, code = JUndefined,
                  error_message = None, error_code = JUndefined,
                  json_text = ''{"status":429}'', to_string = ''Error: Too Many Requests''\<rparr>), b))
        1 True (random model))
     [''gemini-2.5-flash'', ''gemini-3-flash-preview''] (Some ''key'') b
     = (Inl (Obj \<lparr>message = Some ''Too Many Requests'', status = JNumber 429, code = JUndefined,
                  error_message = None, error_code = JUndefined,
                  json_text = ''{"status":429}'', to_string = ''Error: Too Many Requests''\<rparr>) :: thrown + 'a,
        [GetApiKey, Operation ''gemini-2.5-flash'', Within (Attempt 0), Delay 1000,
         Operation ''gemini-3-flash-preview'', Within (Attempt 0)], b :: 'b)\<close>
proof -
  let ?e = \<open>Obj \<lparr>message = Some ''Too Many Requests'', status = JNumber 429, code = JUndefined,
                  error_message = None, error_code = JUndefined,
                  json_text = ''{"status":429}'', to_string = ''Error: Too Many Requests''\<rparr>\<close>
  have r: "isRetryableError ?e q = Inr q" for q
    by (simp add: isRetryableError_def retry_status_def js_or_def)
  have c: "classify ?e = Inr RateLimited"
    by (simp add: classify_def r)
  have nq: "\<not> fallback_isQuota ?e"
    by code_simp
  have one: "withRetry (\<lambda>i b. (Inl ?e, b)) 1 True rnd b = (Inl ?e :: thrown + 'a, [Attempt 0], b)"
    for rnd and b :: 'b
    unfolding withRetry_def by (subst withRetry_from.simps) (simp add: r)
  have k: "\<not> apiKey_missing (Some ''key'')"
    by code_simp
  show ?thesis
    using c nq k by (simp add: withModelFallback_def one)
qed

theorem fallback_status_429_short_cooldown_witness:
  \<open>withModelFallback
     (\<lambda>model apiKey. withRetry
        (\<lambda>i b. (Inl (Obj \<lparr>message = Some ''Too Many Requests'', status = JNumber 429, code = JUndefined,
                  error_message = None, error_code = JUndefined,
                  json_text = ''{"status":429}'', to_string = ''Error: Too Many Requests''\<rparr>), b))
        1 True (\<lambda>i. 0))
     [''gemini-2.5-flash'', ''gemini-3-flash-preview''] (Some ''key'') (0::nat)
     = (Inl (Obj \<lparr>message = Some ''Too Many Requests'', status = JNumber 429, code = JUndefined,
                  error_message = None, error_code = JUndefined,
                  json_text = ''{"status":429}'', to_string = ''Error: Too Many Requests''\<rparr>) :: thrown + string,
        [GetApiKey, Operation ''gemini-2.5-flash'', Within (Attempt 0), Delay 1000,
         Operation ''gemini-3-flash-preview'', Within (Attempt 0)], 0)\<close>
  using fallback_status_429_short_cooldown[of "\<lambda>m i. 0" "0::nat", where ?'a = string]
  by simp

text \<open>
  C9. In every invocation of the orchestrator the credential is read once, and that
  read is the first event, before any candidate model is tried. When the credential is
  missing, the missing-credential error is thrown, the operation is never invoked (no
  event but the read, the backend state untouched), and that error is classified fatal.
\<close>

theorem credential_checked_once_before_models:
  "(\<exists>rest. fst (snd (withModelFallback operation models env_API_KEY b)) = GetApiKey # rest
           \<and> GetApiKey \<notin> set rest) \<and>
   (apiKey_missing env_API_KEY \<longrightarrow>
      withModelFallback operation models env_API_KEY b
        = (Inl (new_Error key_missing_message), [GetApiKey], b)) \<and>
   classify (new_Error key_missing_message) = Inr Fatal"
proof (intro conjI impI)
  show "\<exists>rest. fst (snd (withModelFallback operation models env_API_KEY b)) = GetApiKey # rest
           \<and> GetApiKey \<notin> set rest"
    using fallback_from_no_GetApiKey[of operation "the env_API_KEY" models models Undefined b]
    by (auto simp: withModelFallback_def split: prod.splits)
qed (simp_all add: withModelFallback_def key_missing_Fatal)

theorem credential_checked_once_before_models_witness:
  "apiKey_missing None \<and>
   withModelFallback (\<lambda>model apiKey b. (Inr model, [Attempt 0], Suc b)) default_models None (0::nat)
     = (Inl (new_Error key_missing_message), [GetApiKey], 0)"
proof -
  have m: "apiKey_missing None"
    by (simp add: apiKey_missing_def)
  with credential_checked_once_before_models
         [of "\<lambda>model apiKey b. (Inr model, [Attempt 0], Suc b)" default_models None "0::nat"]
  show ?thesis
    by blast
qed

subsection \<open>Cleaning the response text\<close>






text \<open>No marker in the data: nothing is removed from it.\<close>

lemma prefix_fence_sublist: "prefix (fence @ p) s \<Longrightarrow> sublist fence s"
  by (auto simp: prefix_def sublist_def intro: exI[of _ "[]"])












subsection \<open>White space\<close>

lemma ws_exclusive:
  "ws1 a \<Longrightarrow> \<not> ws2 a b \<and> \<not> ws3 a b c"
  "ws2 a b \<Longrightarrow> \<not> ws3 a b c"
  "ws2 a b \<Longrightarrow> \<not> ws1 b"
  "ws3 a b c \<Longrightarrow> \<not> ws1 b \<and> \<not> ws1 c \<and> \<not> ws2 b c"
  by (auto simp: ws1_def ws2_def ws3_def Let_def)

lemma whitespace_only_Cons1: "ws1 a \<Longrightarrow> whitespace_only (a # s) = whitespace_only s"
  using ws_exclusive(1)[of a]
  by (cases s rule: whitespace_only.cases) auto

lemma whitespace_only_Cons2: "ws2 a b \<Longrightarrow> whitespace_only (a # b # s) = whitespace_only s"
  using ws_exclusive(1)[of a b] ws_exclusive(2)[of a b]
  by (cases s) auto

lemma whitespace_only_Cons3: "ws3 a b c \<Longrightarrow> whitespace_only (a # b # c # s) = whitespace_only s"
  using ws_exclusive(1)[of a b c] ws_exclusive(2)[of a b c]
  by auto

lemma trimStart_Nil_iff: "trimStart s = [] \<longleftrightarrow> whitespace_only s"
  by (induction s rule: trimStart.induct)
     (auto simp: whitespace_only_Cons1 whitespace_only_Cons2 whitespace_only_Cons3
           dest: ws_exclusive)

lemma whitespace_only_append:
  "whitespace_only x \<Longrightarrow> whitespace_only y \<Longrightarrow> whitespace_only (x @ y)"
proof (induction x rule: whitespace_only.induct)
  case 1
  then show ?case by simp
next
  case (2 a)
  then show ?case by (simp add: whitespace_only_Cons1)
next
  case (3 a b)
  then show ?case
    by (auto simp: whitespace_only_Cons1 whitespace_only_Cons2)
next
  case (4 a b c s)
  from "4.prems"(1) consider "ws1 a" "whitespace_only (b # c # s)"
    | "ws2 a b" "whitespace_only (c # s)" | "ws3 a b c" "whitespace_only s"
    by auto
  then show ?case
  proof cases
    case 1
    with 4 show ?thesis by (simp add: whitespace_only_Cons1)
  next
    case 2
    with 4 show ?thesis by (simp add: whitespace_only_Cons2)
  next
    case 3
    with 4 show ?thesis by (simp add: whitespace_only_Cons3)
  qed
qed

lemma trimEnd_rev_Nil: "trimEnd_rev r = [] \<Longrightarrow> whitespace_only (rev r)"
proof (induction r rule: trimEnd_rev.induct)
  case (1 c b a s)
  consider "ws1 c" | "\<not> ws1 c" "ws2 b c" | "\<not> ws1 c" "\<not> ws2 b c" "ws3 a b c"
    | "\<not> ws1 c" "\<not> ws2 b c" "\<not> ws3 a b c"
    by blast
  then show ?case
  proof cases
    case 1
    with "1.prems" "1.IH"(1) have "whitespace_only (rev (b # a # s))" by simp
    with 1 whitespace_only_append[of "rev (b # a # s)" "[c]"] show ?thesis by simp
  next
    case 2
    with "1.prems" "1.IH"(2) have "whitespace_only (rev (a # s))" by simp
    with 2 whitespace_only_append[of "rev (a # s)" "[b, c]"] show ?thesis by simp
  next
    case 3
    with "1.prems" "1.IH"(3) have "whitespace_only (rev s)" by simp
    with 3 whitespace_only_append[of "rev s" "[a, b, c]"] show ?thesis by simp
  next
    case 4
    with "1.prems" show ?thesis by simp
  qed
next
  case (2 c b)
  then show ?case
    using whitespace_only_append[of "[b]" "[c]"]
    by (auto split: if_splits)
next
  case (3 c)
  then show ?case by (auto split: if_splits)
next
  case 4
  then show ?case by simp
qed

lemma trimStart_idem: "trimStart (trimStart s) = trimStart s"
  by (induction s rule: trimStart.induct) auto

lemma trim_Nil_iff: "trim s = [] \<longleftrightarrow> whitespace_only s"
proof
  assume "trim s = []"
  then have "whitespace_only (trimStart s)"
    using trimEnd_rev_Nil[of "rev (trimStart s)"] by (simp add: trim_def)
  then have "trimStart (trimStart s) = []"
    by (simp add: trimStart_Nil_iff)
  then show "whitespace_only s"
    by (simp add: trimStart_idem trimStart_Nil_iff)
next
  assume "whitespace_only s"
  then show "trim s = []"
    by (simp add: trim_def trimStart_Nil_iff[symmetric])
qed

lemma apiKey_missing_iff:
  "apiKey_missing k \<longleftrightarrow>
     k = None \<or> k = Some ''undefined'' \<or> (\<exists>s. k = Some s \<and> whitespace_only s)"
  by (cases k) (auto simp: apiKey_missing_def trim_Nil_iff)







subsection \<open>The parser\<close>






subsection \<open>The research task\<close>

text \<open>
  C7. When the text of the response cannot be parsed (\<open>parseAIResponse\<close> throws),
  the attempt of the research task does not fail: it returns the three prompts
  synthesized from the topic, each a non-empty string. So does the whole task, with the
  credential present and that response obtained from the first model at the first
  attempt.
\<close>

theorem research_unparsable_three_prompts:
  assumes "parseAIResponse JSON_parse (response_text response) = Inl e"
  shows "(generateContent (ResearchRequest modelName apiKey topic) b = (Inr response, b') \<longrightarrow>
            research_attempt generateContent JSON_parse topic modelName apiKey attempt b =
              (Inr \<lparr>sources = (case groundingChunks response of Some cs \<Rightarrow> cs | None \<Rightarrow> []),
                    prompts = synthesized_prompts topic\<rparr>, b')) \<and>
         (\<not> apiKey_missing env_API_KEY \<and>
          generateContent (ResearchRequest ''gemini-2.5-flash'' (the env_API_KEY) topic) b = (Inr response, b') \<longrightarrow>
            generateResearchContent generateContent JSON_parse random topic env_API_KEY b =
              (Inr \<lparr>sources = (case groundingChunks response of Some cs \<Rightarrow> cs | None \<Rightarrow> []),
                    prompts = synthesized_prompts topic\<rparr>,
               [GetApiKey, Operation ''gemini-2.5-flash'', Within (Attempt 0)], b')) \<and>
         length (synthesized_prompts topic) = 3 \<and>
         (\<forall>p \<in> set (synthesized_prompts topic). \<exists>s. p = JStr s \<and> s \<noteq> [])"
proof (intro conjI impI)
  assume g: "generateContent (ResearchRequest modelName apiKey topic) b = (Inr response, b')"
  show "research_attempt generateContent JSON_parse topic modelName apiKey attempt b =
              (Inr \<lparr>sources = (case groundingChunks response of Some cs \<Rightarrow> cs | None \<Rightarrow> []),
                    prompts = synthesized_prompts topic\<rparr>, b')"
    using g assms by (simp add: research_attempt_def pad_prompts_def synthesized_prompts_def)
next
  assume h: "\<not> apiKey_missing env_API_KEY \<and>
          generateContent (ResearchRequest ''gemini-2.5-flash'' (the env_API_KEY) topic) b = (Inr response, b')"
  then have a: "research_attempt generateContent JSON_parse topic ''gemini-2.5-flash'' (the env_API_KEY) 0 b =
              (Inr \<lparr>sources = (case groundingChunks response of Some cs \<Rightarrow> cs | None \<Rightarrow> []),
                    prompts = synthesized_prompts topic\<rparr>, b')"
    using assms by (simp add: research_attempt_def pad_prompts_def synthesized_prompts_def)
  show "generateResearchContent generateContent JSON_parse random topic env_API_KEY b =
              (Inr \<lparr>sources = (case groundingChunks response of Some cs \<Rightarrow> cs | None \<Rightarrow> []),
                    prompts = synthesized_prompts topic\<rparr>,
               [GetApiKey, Operation ''gemini-2.5-flash'', Within (Attempt 0)], b')"
  proof -
    have "withRetry (research_attempt generateContent JSON_parse topic ''gemini-2.5-flash'' (the env_API_KEY))
            3 True (random ''gemini-2.5-flash'') b =
              (Inr \<lparr>sources = (case groundingChunks response of Some cs \<Rightarrow> cs | None \<Rightarrow> []),
                    prompts = synthesized_prompts topic\<rparr>, [Attempt 0], b')"
      using a by (intro withRetry_success_first) simp_all
    with h show ?thesis
      by (simp add: generateResearchContent_def withModelFallback_def default_models_def)
  qed
qed (simp_all add: synthesized_prompts_def)

theorem research_unparsable_three_prompts_witness:
  "generateResearchContent
     (\<lambda>req b. (Inr \<lparr>response_text = Some ''I cannot help with that.'', groundingChunks = None,
                      content_parts = None\<rparr>, Suc b))
     (\<lambda>s. None) (\<lambda>m i. 0) ''caries'' (Some ''k'') (0::nat)
   = (Inr \<lparr>sources = [],
           prompts = [JStr ''Dental clinical view of caries'', JStr ''Anatomical diagram of caries'',
                      JStr ''X-ray of caries'']\<rparr>,
      [GetApiKey, Operation ''gemini-2.5-flash'', Within (Attempt 0)], 1)"
proof -
  let ?response = "\<lparr>response_text = Some ''I cannot help with that.'', groundingChunks = None,
                    content_parts = None\<rparr>"
  have f: "parseAIResponse (\<lambda>s. None) (response_text ?response) = Inl (new_Error parse_failed_message)"
    by (simp add: parseAIResponse_def)
  have k: "\<not> apiKey_missing (Some ''k'')"
    by code_simp
  from research_unparsable_three_prompts[OF f, THEN conjunct2, THEN conjunct1, rule_format,
      where generateContent = "\<lambda>req b. (Inr ?response, Suc b)" and env_API_KEY = "Some ''k''"
        and b = 0 and b' = 1 and topic = "''caries''" and random = "\<lambda>m i. 0"] k
  show ?thesis
    by (simp add: synthesized_prompts_def)
qed


subsection \<open>The credential\<close>

lemma task_key_missing:
  assumes "apiKey_missing k"
  shows "withModelFallback operation models k b = (Inl (new_Error key_missing_message), [GetApiKey], b)"
  using assms by (simp add: withModelFallback_def)

text \<open>
  C10, amended. The credential check of the orchestrator fails exactly when the
  credential is unset, is the string \<open>undefined\<close>, or is white space only (the empty
  string included). Then the orchestrator throws the missing-credential error without
  invoking the operation; the five tasks that return its result throw that error, and
  the image task, which catches whatever is thrown, returns \<open>null\<close>. For any other
  string the check passes and the first candidate model is tried.
\<close>

theorem credential_absent_forms:
  "(apiKey_missing k \<longleftrightarrow>
      k = None \<or> k = Some ''undefined'' \<or> (\<exists>s. k = Some s \<and> whitespace_only s)) \<and>
   (apiKey_missing k \<longrightarrow>
      withModelFallback operation models k b = (Inl (new_Error key_missing_message), [GetApiKey], b) \<and>
      generateSimulationContent gc JSON_parse rnd topic k b
        = (Inl (new_Error key_missing_message), [GetApiKey], b) \<and>
      generatePracticalContent gc JSON_parse rnd topic k b
        = (Inl (new_Error key_missing_message), [GetApiKey], b) \<and>
      generateQuizContent gc JSON_parse rnd topic language count difficulty k b
        = (Inl (new_Error key_missing_message), [GetApiKey], b) \<and>
      generateResearchContent gc JSON_parse rnd topic k b
        = (Inl (new_Error key_missing_message), [GetApiKey], b) \<and>
      analyzeDentalImage gc JSON_parse rnd base64Image k b
        = (Inl (new_Error key_missing_message), [GetApiKey], b) \<and>
      generateRealisticDentalImage gc rnd prompt type k b = (Inr None, [GetApiKey], b)) \<and>
   (\<not> apiKey_missing k \<longrightarrow>
      (\<exists>r evs b'. withModelFallback operation (m # models) k b
                     = (r, GetApiKey # Operation m # evs, b')))"
proof (intro conjI impI)
  show "apiKey_missing k \<longleftrightarrow>
      k = None \<or> k = Some ''undefined'' \<or> (\<exists>s. k = Some s \<and> whitespace_only s)"
    by (rule apiKey_missing_iff)
next
  assume "\<not> apiKey_missing k"
  then show "\<exists>r evs b'. withModelFallback operation (m # models) k b
                     = (r, GetApiKey # Operation m # evs, b')"
    by (auto simp: withModelFallback_def Let_def split: prod.splits sum.splits thrown.splits)
qed (simp_all add: task_key_missing generateSimulationContent_def generatePracticalContent_def
       generateQuizContent_def generateResearchContent_def analyzeDentalImage_def
       generateRealisticDentalImage_def)

theorem credential_absent_forms_witness:
  "apiKey_missing (Some ''   '') \<and>
   generateQuizContent (\<lambda>req b. (Inl (Str ''offline''), Suc b)) (\<lambda>s. None) (\<lambda>m i. 0)
      ''caries'' Ar 5 Medium (Some ''   '') (0::nat)
     = (Inl (new_Error key_missing_message), [GetApiKey], 0)"
proof -
  have w: "apiKey_missing (Some ''   '')"
    by code_simp
  from credential_absent_forms[THEN conjunct2, THEN conjunct1, rule_format, OF w,
      where gc = "\<lambda>req b. (Inl (Str ''offline''), Suc b)" and b = "0::nat"] w
  show ?thesis
    by blast
qed

text \<open>Without a credential the image task returns \<open>null\<close>; it does not throw.\<close>

theorem image_task_returns_null_without_key:
  "generateRealisticDentalImage (\<lambda>req b. (Inl (Str ''offline''), Suc b)) (\<lambda>m i. 0)
      ''lower molar'' CLINICAL None (0::nat) = (Inr None, [GetApiKey], 0)"
  by (simp add: generateRealisticDentalImage_def withModelFallback_def apiKey_missing_def)

subsection \<open>The request handler\<close>

lemma outcome_of_Inl: "outcome_of r = (Inl e, b') \<longleftrightarrow> r = (Inl e, b')"
  by (auto simp: outcome_of_def split: prod.splits sum.splits)

lemma catch_block_frame:
  "simulationData (catch_block e app) = simulationData app"
  "practicalData (catch_block e app) = practicalData app"
  "galleryItems (catch_block e app) = galleryItems app"
  "quizData (catch_block e app) = quizData app"
  "messages (catch_block e app) = messages app"
  "checkedPracticalSteps (catch_block e app) = checkedPracticalSteps app"
  "revealedAnswers (catch_block e app) = revealedAnswers app"
  "\<exists>y. errorStatus (catch_block e app) = Some y"
  by (simp_all add: catch_block_def Let_def)

lemma finally_block_frame:
  "simulationData (finally_block t app) = simulationData app"
  "practicalData (finally_block t app) = practicalData app"
  "galleryItems (finally_block t app) = galleryItems app"
  "quizData (finally_block t app) = quizData app"
  "messages (finally_block t app) = messages app"
  "checkedPracticalSteps (finally_block t app) = checkedPracticalSteps app"
  "revealedAnswers (finally_block t app) = revealedAnswers app"
  "errorStatus (finally_block t app) = errorStatus app"
  by (simp_all add: finally_block_def Let_def)

text \<open>
  C2, amended. When the primary generation task of a request fails, the handler ends
  with a status message and starts no image batch. The content of the simulation and of
  the practical workspace is as it was before the request, and so is the content of
  every workspace but the active one. The gallery items and the quiz data of the active
  workspace are cleared: the handler clears them when the request starts, before the
  task runs, and the failure handler writes no content. (The check marks of the
  practical steps and the revealed quiz answers are reset at the start in the same way.)
\<close>

theorem primary_failure_frame:
  assumes "\<not> apiKeyMissing app" and "\<not> loading app"
    and "trim (input app) \<noteq> [] \<or> truthy_str (uploadedImage app)"
    and "primary_call svc app b = Some (Inl e, b')"
  shows "\<exists>app'. handleConvert svc app b = (app', [], b', NoJob) \<and>
           simulationData app' = simulationData app \<and>
           practicalData app' = practicalData app \<and>
           galleryItems app' = (if activeTab app = Gallery then [] else galleryItems app) \<and>
           quizData app' = (if activeTab app = Quiz then None else quizData app) \<and>
           checkedPracticalSteps app' =
             (if activeTab app = Practical then [] else checkedPracticalSteps app) \<and>
           revealedAnswers app' = (if activeTab app = Quiz then [] else revealedAnswers app) \<and>
           errorStatus app' \<noteq> None"
proof (cases "activeTab app")
  case Simulation
  show ?thesis
  proof (cases "truthy_str (uploadedImage app)")
    case True
    with assms Simulation have "svc_analyzeDentalImage svc (the (uploadedImage app)) b = (Inl e, b')"
      by (simp add: primary_call_def outcome_of_Inl)
    with assms(1-3) Simulation True show ?thesis
      by (auto simp: handleConvert_def try_block_def try_simulation_def Let_def
            catch_block_frame finally_block_frame)
  next
    case False
    with assms Simulation have "svc_generateSimulationContent svc (input app) b = (Inl e, b')"
      by (simp add: primary_call_def outcome_of_Inl)
    with assms(1-3) Simulation False show ?thesis
      by (auto simp: handleConvert_def try_block_def try_simulation_def Let_def
            catch_block_frame finally_block_frame)
  qed
next
  case Practical
  with assms(4) have u: "\<not> truthy_str (uploadedImage app)"
    and "svc_generatePracticalContent svc (input app) b = (Inl e, b')"
    by (auto simp: primary_call_def outcome_of_Inl split: if_splits)
  with assms(1-3) Practical show ?thesis
    by (auto simp: handleConvert_def try_block_def try_practical_def Let_def
          catch_block_frame finally_block_frame)
next
  case Gallery
  with assms(4) have r: "svc_generateResearchContent svc
                  (if input app \<noteq> [] then input app
                   else if sim_data (simulationData app) \<noteq> None then ''Dental procedures''
                   else ''Dentistry'') b = (Inl e, b')"
    by (auto simp: primary_call_def outcome_of_Inl split: if_splits)
  consider (a) "input app \<noteq> []" | (b) "input app = []" "sim_data (simulationData app) \<noteq> None"
    | (c) "input app = []" "sim_data (simulationData app) = None"
    by blast
  then show ?thesis
  proof cases
    case a
    with r have "svc_generateResearchContent svc (input app) b = (Inl e, b')" by simp
    with assms(1-3) Gallery a show ?thesis
      by (auto simp: handleConvert_def try_block_def try_gallery_def Let_def
            catch_block_frame finally_block_frame)
  next
    case b
    with r have "svc_generateResearchContent svc ''Dental procedures'' b = (Inl e, b')" by simp
    with assms(1-3) Gallery b show ?thesis
      by (auto simp: handleConvert_def try_block_def try_gallery_def Let_def
            catch_block_frame finally_block_frame)
  next
    case c
    with r have "svc_generateResearchContent svc ''Dentistry'' b = (Inl e, b')" by simp
    with assms(1-3) Gallery c show ?thesis
      by (auto simp: handleConvert_def try_block_def try_gallery_def Let_def
            catch_block_frame finally_block_frame)
  qed
next
  case Quiz
  with assms(4) have "svc_generateQuizContent svc (input app) (quizLanguage app) (quizCount app)
                  (quizDifficulty app) b = (Inl e, b')"
    by (auto simp: primary_call_def outcome_of_Inl split: if_splits)
  with assms(1-3) Quiz show ?thesis
    by (auto simp: handleConvert_def try_block_def try_quiz_def Let_def
          catch_block_frame finally_block_frame)
qed

theorem primary_failure_frame_witness:
  "simulationData (fst (handleConvert (failing_services (new_Error ''Failed to fetch''))
      (initial_app\<lparr>input := ''pulp necrosis'',
         simulationData := \<lparr>sim_data = None, url = Some ''data:image/png;base64,AAAA'',
                             radiologyUrl = None, explodedUrl = None\<rparr>\<rparr>) (0::nat)))
     = \<lparr>sim_data = None, url = Some ''data:image/png;base64,AAAA'',
        radiologyUrl = None, explodedUrl = None\<rparr>"
proof -
  let ?app = "initial_app\<lparr>input := ''pulp necrosis'',
         simulationData := \<lparr>sim_data = None, url = Some ''data:image/png;base64,AAAA'',
                             radiologyUrl = None, explodedUrl = None\<rparr>\<rparr>"
  let ?svc = "failing_services (new_Error ''Failed to fetch'') :: nat services"
  have 1: "\<not> apiKeyMissing ?app" and 2: "\<not> loading ?app"
    by (simp_all add: initial_app_def)
  have 3: "trim (input ?app) \<noteq> [] \<or> truthy_str (uploadedImage ?app)"
    by code_simp
  have 4: "primary_call ?svc ?app 0 = Some (Inl (new_Error ''Failed to fetch''), 0)"
    by (simp add: primary_call_def initial_app_def failing_services_def outcome_of_def)
  from primary_failure_frame[OF 1 2 3 4] show ?thesis
    by auto
qed

text \<open>
  The quiz workspace holds one question; the next request fails (the task throws), and
  the quiz data is gone.
\<close>

theorem quiz_cleared_on_primary_failure:
  "quizData (initial_app\<lparr>activeTab := Quiz, input := ''caries'',
        quizData := Some \<lparr>essayQuestions = [''q1''], shortAnswerQuestions = [], mcqQuestions = []\<rparr>\<rparr>)
     = Some \<lparr>essayQuestions = [''q1''], shortAnswerQuestions = [], mcqQuestions = []\<rparr> \<and>
   primary_call (failing_services (new_Error ''Failed to fetch''))
      (initial_app\<lparr>activeTab := Quiz, input := ''caries'',
        quizData := Some \<lparr>essayQuestions = [''q1''], shortAnswerQuestions = [], mcqQuestions = []\<rparr>\<rparr>) (0::nat)
     = Some (Inl (new_Error ''Failed to fetch''), 0) \<and>
   quizData (fst (handleConvert (failing_services (new_Error ''Failed to fetch''))
      (initial_app\<lparr>activeTab := Quiz, input := ''caries'',
        quizData := Some \<lparr>essayQuestions = [''q1''], shortAnswerQuestions = [], mcqQuestions = []\<rparr>\<rparr>) (0::nat)))
     = None"
  by (simp add: initial_app_def primary_call_def failing_services_def outcome_of_def
        handleConvert_def try_block_def try_quiz_def Let_def catch_block_def finally_block_def
        trim_def ws1_def ws2_def ws3_def)

subsection \<open>The image batches\<close>

lemma indexed_3: "indexed [x, y, z] = [(0, x), (1, y), (2, z)]"
  by (simp add: indexed_def upt_rec numeral_3_eq_3)

text \<open>The loops of the gallery and of the practical protocol keep the cooldown rule.\<close>

lemma gallery_loop_cooldown_rule:
  "cooldown_rule (fst (snd (gallery_loop gen its current b)))"
proof (induction its arbitrary: current b)
  case Nil
  then show ?case by simp
next
  case (Cons x its)
  obtain i item where x: "x = (i, item)"
    by (cases x)
  obtain r b' where g: "gen (gallery_prompt item) CLINICAL b = (r, b')"
    by (cases "gen (gallery_prompt item) CLINICAL b")
  show ?case
  proof (cases r)
    case (Inl e)
    obtain c evs b'' where rest: "gallery_loop gen its (gallery_fail i current) b' = (c, evs, b'')"
      by (cases "gallery_loop gen its (gallery_fail i current) b'")
    with Cons.IH[of "gallery_fail i current" b'] have "cooldown_rule evs" by simp
    with x g Inl rest show ?thesis by simp
  next
    case (Inr img)
    obtain c evs b'' where rest: "gallery_loop gen its (gallery_record i img current) b' = (c, evs, b'')"
      by (cases "gallery_loop gen its (gallery_record i img current) b'")
    with Cons.IH[of "gallery_record i img current" b'] have "cooldown_rule evs" by simp
    with x g Inr rest show ?thesis by simp
  qed
qed

lemma practical_loop_cooldown_rule:
  "cooldown_rule (fst (snd (practical_loop gen its current b)))"
proof (induction its arbitrary: current b)
  case Nil
  then show ?case by simp
next
  case (Cons x its)
  obtain i step where x: "x = (i, step)"
    by (cases x)
  have rest: "\<exists>r evs b''. practical_loop gen its c b' = (r, evs, b'') \<and> cooldown_rule evs" for c b'
    using Cons.IH[of c b'] by (cases "practical_loop gen its c b'") simp
  show ?case
  proof (cases "truthy_str (visualPrompt step)")
    case False
    with x Cons.IH[of current b] show ?thesis by simp
  next
    case True
    show ?thesis
    proof (cases "practical_mark_loading i current")
      case (Inl s)
      with x True show ?thesis by simp
    next
      case m: (Inr current1)
      obtain r b' where g: "gen (the (visualPrompt step)) CLINICAL b = (r, b')"
        by (cases "gen (the (visualPrompt step)) CLINICAL b")
      show ?thesis
      proof (cases r)
        case (Inl e)
        show ?thesis
        proof (cases "practical_fail i current1")
          case f: (Inl s)
          with x True m g Inl show ?thesis by simp
        next
          case f: (Inr current2)
          from rest[of current2 b'] x True m g Inl f show ?thesis by auto
        qed
      next
        case (Inr img)
        show ?thesis
        proof (cases "practical_record i img current1")
          case f: (Inl s)
          with x True m g Inr show ?thesis by simp
        next
          case f: (Inr current2)
          from rest[of current2 b'] x True m g Inr f show ?thesis by auto
        qed
      qed
    qed
  qed
qed

text \<open>
  C1. In the loop of the simulation workspace the wait of six seconds follows every
  call that returns, with an image or without: when the three image calls all return
  \<open>null\<close>, each of them is followed by \<open>Cooldown 6000\<close>. (The loops of the practical and
  gallery workspaces wait only \<open>if (img)\<close>.)
\<close>

theorem simulation_cooldown_after_failed_image:
  "simulation_images (\<lambda>prompt type b. (Inr None, Suc b)) (indexed (imageRequests d userMessage)) sd b
     = (sd, [ImageCall 0, Warned 0, Cooldown 6000, ImageCall 1, Warned 1, Cooldown 6000,
             ImageCall 2, Warned 2, Cooldown 6000], Suc (Suc (Suc b))) \<and>
   \<not> cooldown_rule (fst (snd (simulation_images (\<lambda>prompt type b. (Inr None, Suc b))
                            (indexed (imageRequests d userMessage)) sd b)))"
  by (simp add: imageRequests_def indexed_3)

theorem simulation_cooldown_after_failed_image_witness:
  "simulation_images (\<lambda>prompt type b. (Inr None, Suc b))
     (indexed (imageRequests \<lparr>theorySummary = None, imagePrompt = None, radiologyPrompt = None,
                 explodedPrompt = None, practicalProtocol = None, analysisResult = None\<rparr> ''pulp necrosis''))
     \<lparr>sim_data = None, url = None, radiologyUrl = None, explodedUrl = None\<rparr> (0::nat)
     = (\<lparr>sim_data = None, url = None, radiologyUrl = None, explodedUrl = None\<rparr>,
        [ImageCall 0, Warned 0, Cooldown 6000, ImageCall 1, Warned 1, Cooldown 6000,
         ImageCall 2, Warned 2, Cooldown 6000], 3)"
  using simulation_cooldown_after_failed_image[of
      "\<lparr>theorySummary = None, imagePrompt = None, radiologyPrompt = None,
                 explodedPrompt = None, practicalProtocol = None, analysisResult = None\<rparr>"
      "''pulp necrosis''" "\<lparr>sim_data = None, url = None, radiologyUrl = None, explodedUrl = None\<rparr>" 0]
  by (simp add: numeral_3_eq_3)

text \<open>
  C6. A batch of three items, run alone, of which the second call returns no image (or
  throws) and the other two return one. In the gallery and in the practical protocol
  (three steps with a prompt, pending) the items end as completed, failed, completed, in
  this order; the failed call changes its own item only; and the events are in sequence:
  the call for the third item comes after the status of the second is set, and takes
  the backend state the second call left.
\<close>

theorem batch_failure_isolated_sequential:
  assumes g0: "gen (gallery_prompt x0) CLINICAL b0 = (Inr (Some u0), b1)" "u0 \<noteq> []"
    and g1: "gen (gallery_prompt x1) CLINICAL b1 = (r1, b2)" "r1 = Inr None \<or> r1 = Inl e"
    and g2: "gen (gallery_prompt x2) CLINICAL b2 = (Inr (Some u2), b3)" "u2 \<noteq> []"
    and p: "truthy_str (visualPrompt p0)" "truthy_str (visualPrompt p1)" "truthy_str (visualPrompt p2)"
    and q: "imageStatus p0 = Some Pending" "imageStatus p1 = Some Pending" "imageStatus p2 = Some Pending"
    and d: "practicalProtocol d = Some [p0, p1, p2]"
    and h0: "gen' (the (visualPrompt p0)) CLINICAL c0 = (Inr (Some v0), c1)" "v0 \<noteq> []"
    and h1: "gen' (the (visualPrompt p1)) CLINICAL c1 = (s1, c2)" "s1 = Inr None \<or> s1 = Inl e'"
    and h2: "gen' (the (visualPrompt p2)) CLINICAL c2 = (Inr (Some v2), c3)" "v2 \<noteq> []"
  shows "gallery_batch gen [x0, x1, x2] [x0, x1, x2] b0 =
           ([x0\<lparr>gallery_imageUrl := Some u0, gallery_status := Completed\<rparr>,
             (if r1 = Inr None then x1\<lparr>gallery_imageUrl := None, gallery_status := Failed\<rparr>
              else x1\<lparr>gallery_status := Failed\<rparr>),
             x2\<lparr>gallery_imageUrl := Some u2, gallery_status := Completed\<rparr>],
            [ImageCall 0, StatusSet 0 Completed, Cooldown 6000,
             ImageCall 1, StatusSet 1 Failed,
             ImageCall 2, StatusSet 2 Completed, Cooldown 6000], b3) \<and>
         map gallery_status (fst (gallery_batch gen [x0, x1, x2] [x0, x1, x2] b0))
           = [Completed, Failed, Completed] \<and>
         practical_batch gen' [p0, p1, p2] (Some d) c0 =
           (Inr (Some (d\<lparr>practicalProtocol := Some
               [p0\<lparr>imageUrl := Some v0, imageStatus := Some Completed\<rparr>,
                (if s1 = Inr None then p1\<lparr>imageUrl := None, imageStatus := Some Failed\<rparr>
                 else p1\<lparr>imageStatus := Some Failed\<rparr>),
                p2\<lparr>imageUrl := Some v2, imageStatus := Some Completed\<rparr>]\<rparr>)),
            [MarkLoading 0, ImageCall 0, StatusSet 0 Completed, Cooldown 6000,
             MarkLoading 1, ImageCall 1] @ (if s1 = Inr None then [] else [Warned 1]) @
            [StatusSet 1 Failed,
             MarkLoading 2, ImageCall 2, StatusSet 2 Completed, Cooldown 6000], c3)"
proof -
  have G: "gallery_batch gen [x0, x1, x2] [x0, x1, x2] b0 =
           ([x0\<lparr>gallery_imageUrl := Some u0, gallery_status := Completed\<rparr>,
             (if r1 = Inr None then x1\<lparr>gallery_imageUrl := None, gallery_status := Failed\<rparr>
              else x1\<lparr>gallery_status := Failed\<rparr>),
             x2\<lparr>gallery_imageUrl := Some u2, gallery_status := Completed\<rparr>],
            [ImageCall 0, StatusSet 0 Completed, Cooldown 6000,
             ImageCall 1, StatusSet 1 Failed,
             ImageCall 2, StatusSet 2 Completed, Cooldown 6000], b3)"
    using g1(2)
  proof
    assume "r1 = Inr None"
    with g0 g1(1) g2 show ?thesis
      by (simp add: gallery_batch_def indexed_3 gallery_record_def)
  next
    assume "r1 = Inl e"
    with g0 g1(1) g2 show ?thesis
      by (simp add: gallery_batch_def indexed_3 gallery_record_def gallery_fail_def)
  qed
  have P: "practical_batch gen' [p0, p1, p2] (Some d) c0 =
           (Inr (Some (d\<lparr>practicalProtocol := Some
               [p0\<lparr>imageUrl := Some v0, imageStatus := Some Completed\<rparr>,
                (if s1 = Inr None then p1\<lparr>imageUrl := None, imageStatus := Some Failed\<rparr>
                 else p1\<lparr>imageStatus := Some Failed\<rparr>),
                p2\<lparr>imageUrl := Some v2, imageStatus := Some Completed\<rparr>]\<rparr>)),
            [MarkLoading 0, ImageCall 0, StatusSet 0 Completed, Cooldown 6000,
             MarkLoading 1, ImageCall 1] @ (if s1 = Inr None then [] else [Warned 1]) @
            [StatusSet 1 Failed,
             MarkLoading 2, ImageCall 2, StatusSet 2 Completed, Cooldown 6000], c3)"
    using h1(2)
  proof
    assume "s1 = Inr None"
    with p q d h0 h1(1) h2 show ?thesis
      by (simp add: practical_batch_def indexed_3 practical_mark_loading_def practical_record_def)
  next
    assume "s1 = Inl e'"
    with p q d h0 h1(1) h2 show ?thesis
      by (simp add: practical_batch_def indexed_3 practical_mark_loading_def practical_record_def
            practical_fail_def)
  qed
  from G P show ?thesis
    by (simp del: gallery_item.update_convs)
qed
theorem batch_failure_isolated_sequential_witness:
  "map gallery_status (fst (gallery_batch
       (\<lambda>prompt type b. (if prompt = ''bad'' then Inr None else Inr (Some (''data:'' @ prompt)), Suc b))
       [\<lparr>gallery_id = 0, gallery_prompt = ''a'', gallery_imageUrl = None, gallery_status = Loading,
          gallery_source = None\<rparr>,
        \<lparr>gallery_id = 1, gallery_prompt = ''bad'', gallery_imageUrl = None, gallery_status = Loading,
          gallery_source = None\<rparr>,
        \<lparr>gallery_id = 2, gallery_prompt = ''c'', gallery_imageUrl = None, gallery_status = Loading,
          gallery_source = None\<rparr>]
       [\<lparr>gallery_id = 0, gallery_prompt = ''a'', gallery_imageUrl = None, gallery_status = Loading,
          gallery_source = None\<rparr>,
        \<lparr>gallery_id = 1, gallery_prompt = ''bad'', gallery_imageUrl = None, gallery_status = Loading,
          gallery_source = None\<rparr>,
        \<lparr>gallery_id = 2, gallery_prompt = ''c'', gallery_imageUrl = None, gallery_status = Loading,
          gallery_source = None\<rparr>]
       (0::nat)))
     = [Completed, Failed, Completed]"
proof -
  let ?gen = "\<lambda>(prompt :: string) (type :: image_type) (b :: nat).
                (if prompt = ''bad'' then Inr None else Inr (Some (''data:'' @ prompt)) :: thrown + string option, Suc b)"
  let ?x0 = "\<lparr>gallery_id = 0, gallery_prompt = ''a'', gallery_imageUrl = None, gallery_status = Loading,
          gallery_source = None\<rparr>"
  let ?x1 = "\<lparr>gallery_id = 1, gallery_prompt = ''bad'', gallery_imageUrl = None, gallery_status = Loading,
          gallery_source = None\<rparr>"
  let ?x2 = "\<lparr>gallery_id = 2, gallery_prompt = ''c'', gallery_imageUrl = None, gallery_status = Loading,
          gallery_source = None\<rparr>"
  let ?p = "\<lambda>v. \<lparr>step_id = ''s'', title = ''t'', visualPrompt = Some v, imageUrl = None,
                   imageStatus = Some Pending\<rparr>"
  let ?d = "\<lparr>theorySummary = None, imagePrompt = None, radiologyPrompt = None, explodedPrompt = None,
             practicalProtocol = Some [?p ''a'', ?p ''bad'', ?p ''c''], analysisResult = None\<rparr>"
  have "map gallery_status (fst (gallery_batch ?gen [?x0, ?x1, ?x2] [?x0, ?x1, ?x2] 0))
          = [Completed, Failed, Completed]"
    by (rule batch_failure_isolated_sequential
          [where gen = ?gen and gen' = ?gen and ?x0.0 = ?x0 and ?x1.0 = ?x1 and ?x2.0 = ?x2
             and ?b0.0 = 0 and ?b1.0 = 1 and ?b2.0 = 2 and ?b3.0 = 3
             and ?u0.0 = "''data:a''" and ?u2.0 = "''data:c''" and ?r1.0 = "Inr None" and e = Undefined
             and ?p0.0 = "?p ''a''" and ?p1.0 = "?p ''bad''" and ?p2.0 = "?p ''c''" and d = ?d
             and ?c0.0 = 0 and ?c1.0 = 1 and ?c2.0 = 2 and ?c3.0 = 3
             and ?v0.0 = "''data:a''" and ?v2.0 = "''data:c''" and ?s1.0 = "Inr None" and e' = Undefined,
           THEN conjunct2, THEN conjunct1]) simp_all
  then show ?thesis .
qed

end
